theory Spec2Isabelle
  imports Complex_Main "HOL-Library.Sublist" "HOL-Library.AList"
begin

section \<open>Errors and small Python helpers\<close>

text \<open>
  The client raises \<^verbatim>\<open>ValueError(msg)\<close> and \<^verbatim>\<open>Exception(msg)\<close> with fixed
  message texts; the texts are the only thing that tells one validation failure from
  another, so each text is a constructor of \<open>message\<close>. The remaining constructors of
  \<open>exn\<close> are the exceptions Python itself raises on a missing dictionary key, a
  missing attribute, an index out of range and an operand of the wrong type.
\<close>

datatype message =
    DataOnlyFromEpoch      \<comment> \<open>"Sorry, data are available only from ... Please select a later date."\<close>
  | ToNotGreaterThanFrom   \<comment> \<open>"The to parameter must be greater than the parameter from_."\<close>
  | IntervalTooLong        \<comment> \<open>"Given time interval is too long for given resolution ..."\<close>
  | ChainNotSupported      \<comment> \<open>"The chain parameter must match the supported values."\<close>
  | LimitOutOfBounds       \<comment> \<open>"The limit must be greater than 0 and less than or equal to 100."\<close>
  | PageTooSmall           \<comment> \<open>"The page must be greater than 0."\<close>
  | PageTooBig             \<comment> \<open>"We are sorry, but we are unable to process your page number. ..."\<close>
  | ResolutionNotAllowed   \<comment> \<open>"The resolution must be one of the allowed values."\<close>
  | IsoparseFailed         \<comment> \<open>the message of dateutil's own ValueError\<close>
  | RangeStepZero          \<comment> \<open>"range() arg 3 must not be zero"\<close>
  | NotInList              \<comment> \<open>"... is not in list"\<close>

datatype exn =
    ValueError message
  | Exception message
  | KeyError
  | TypeError
  | AttributeError
  | IndexError
  | External string        \<comment> \<open>an error raised by an injected collaborator\<close>

text \<open>\<^verbatim>\<open>d[k]\<close> on a dictionary written as an association list.\<close>

definition getitem :: "('k \<times> 'v) list \<Rightarrow> 'k \<Rightarrow> exn + 'v" where
  "getitem d k = (case map_of d k of None \<Rightarrow> Inl KeyError | Some v \<Rightarrow> Inr v)"

text \<open>\<^verbatim>\<open>sub in s\<close> on strings.\<close>

fun contains :: "string \<Rightarrow> string \<Rightarrow> bool" where
  "contains sub [] = (sub = [])"
| "contains sub (c # cs) = (prefix sub (c # cs) \<or> contains sub cs)"

text \<open>
  \<^verbatim>\<open>s.upper()\<close>. Isabelle characters are bytes: the twenty-six ASCII lower-case
  letters are mapped and every other byte is kept.
\<close>

definition upper_char :: "char \<Rightarrow> char" where
  "upper_char c =
     (case map_of (zip ''abcdefghijklmnopqrstuvwxyz'' ''ABCDEFGHIJKLMNOPQRSTUVWXYZ'') c of
        None \<Rightarrow> c | Some u \<Rightarrow> u)"

definition upper :: "string \<Rightarrow> string" where
  "upper s = map upper_char s"

text \<open>
  \<^verbatim>\<open>range(a, b, s)\<close> as the list of its elements, for \<open>s \<noteq> 0\<close> (Python raises
  ValueError for a zero step; the caller below models that).
\<close>

function py_range :: "int \<Rightarrow> int \<Rightarrow> int \<Rightarrow> int list" where
  "py_range a b s =
     (if 0 < s then (if a < b then a # py_range (a + s) b s else [])
      else if s < 0 then (if b < a then a # py_range (a + s) b s else [])
      else [])"
  by pat_completeness auto
termination
  by (relation "measure (\<lambda>(a, b, s). if 0 < s then nat (b - a) else nat (a - b))") auto

declare py_range.simps [simp del]

section \<open>Configuration constants of HelixirApi\<close>

text \<open>
  \<^verbatim>\<open>DATA_EPOCH = dt.fromisoformat("2021-04-12T13:45:00+02:00")\<close>; its
  \<^verbatim>\<open>timestamp()\<close> is 1618227900 seconds after 1970-01-01T00:00:00Z.
\<close>

definition DATA_EPOCH :: int where
  "DATA_EPOCH = 1618227900"

datatype chain_arg = ChainInt int | ChainStr string

definition CHAIN_SUPPORTED_VALUES :: "chain_arg list" where
  "CHAIN_SUPPORTED_VALUES =
     [ChainInt 56, ChainInt 1, ChainInt 137, ChainInt 43114, ChainInt 250,
      ChainStr ''BSC'', ChainStr ''ETH'', ChainStr ''POLYGON'', ChainStr ''AVAX'', ChainStr ''FTM'',
      ChainStr ''bsc'', ChainStr ''eth'', ChainStr ''polygon'', ChainStr ''avax'', ChainStr ''ftm'',
      ChainStr ''56'', ChainStr ''1'', ChainStr ''137'', ChainStr ''43114'', ChainStr ''250'']"

definition CHAINS_NUMBER :: nat where
  "CHAINS_NUMBER = 5"

definition LIMIT_LIMITS :: "int \<times> int" where
  "LIMIT_LIMITS = (1, 500)"

definition PAGE_LIMITS :: "int \<times> int" where
  "PAGE_LIMITS = (1, 922337203685477581)"

definition CANDLE_LIMIT :: int where
  "CANDLE_LIMIT = 5000"

definition candle_seconds :: "(string \<times> int) list" where
  "candle_seconds =
     [(''M1'', 1*60), (''M5'', 5*60), (''M10'', 10*60), (''M15'', 15*60), (''M30'', 30*60),
      (''H1'', 60*60), (''H4'', 4*60*60), (''H12'', 12*60*60), (''D1'', 24*60*60)]"

definition candle_limits :: "(string \<times> int) list" where
  "candle_limits =
     [(''M1'', 1*60 * 60*24 * 7), (''M5'', 5*60 * 12*24 * 7), (''M10'', 10*60 * 6*24 * 7),
      (''M15'', 15*60 * 4*24 * 10), (''M30'', 30*60 * 2*24 * 10), (''H1'', 60*60 * 24 * 14),
      (''H4'', 4*60*60 * 6 * 20), (''H12'', 12*60*60 * 2 * 20), (''D1'', 24*60*60 * 30)]"

definition strict_candle_limits :: "(string \<times> int) list" where
  "strict_candle_limits =
     [(''M1'', 1*60 * 60*24 * 1), (''M5'', 5*60 * 12*24 * 1), (''M10'', 10*60 * 6*24 * 1),
      (''M15'', 15*60 * 4*24 * 2), (''M30'', 30*60 * 2*24 * 2), (''H1'', 60*60 * 24 * 2),
      (''H4'', 4*60*60 * 6 * 7), (''H12'', 12*60*60 * 2 * 7), (''D1'', 24*60*60 * 30)]"

section \<open>The candle request loop\<close>

text \<open>
  \<^verbatim>\<open>_handle_response\<close> performs one HTTP request and decodes the answer. Here it is
  the injected executor: called with the \<^verbatim>\<open>from\<close> and \<^verbatim>\<open>to\<close> it finds in
  \<^verbatim>\<open>params\<close>, it reads and changes the outside world \<open>'s\<close> and either raises or
  returns a list of items.
\<close>

type_synonym ('a, 's) executor = "int \<Rightarrow> int \<Rightarrow> 's \<Rightarrow> (exn + 'a list) \<times> 's"

text \<open>
  The first statements of \<^verbatim>\<open>_handle_candle_response\<close>: upper-case the resolution,
  pick the table by the endpoint, and cap the window by 5000 candles.
\<close>

definition candle_step :: "string \<Rightarrow> string \<Rightarrow> exn + int" where
  "candle_step endpoint resolution =
     (let res = upper resolution in
      case (if contains ''active_addresses'' endpoint \<or> contains ''moves'' endpoint
            then getitem strict_candle_limits res
            else getitem candle_limits res) of
        Inl e \<Rightarrow> Inl e
      | Inr step \<Rightarrow>
          (case getitem candle_seconds res of
             Inl e \<Rightarrow> Inl e
           | Inr secs \<Rightarrow> Inr (min step (secs * CANDLE_LIMIT))))"

text \<open>
  The guard under \<^verbatim>\<open>if not self.split_request\<close>. The source computes
  \<^verbatim>\<open>delta = params["from"] - params["to"]\<close>, which raises TypeError when either is
  None, and divides with Python's true division.
\<close>

definition split_guard :: "string \<Rightarrow> int \<Rightarrow> int option \<Rightarrow> int option \<Rightarrow> exn + unit" where
  "split_guard resolution step from to =
     (case (from, to) of
        (Some f, Some t) \<Rightarrow>
          (let delta = f - t in
           case getitem candle_seconds (upper resolution) of
             Inl e \<Rightarrow> Inl e
           | Inr secs \<Rightarrow>
               if real_of_int delta / real_of_int secs > real_of_int CANDLE_LIMIT \<or> delta > step
               then Inl (Exception IntervalTooLong)
               else Inr ())
      | _ \<Rightarrow> Inl TypeError)"

text \<open>
  The body of the \<^verbatim>\<open>for i in trange(...)\<close> loop, over the values of \<open>i\<close> still to
  come: the request for \<open>[i, min (i + step) original_to)\<close> is issued and its items are
  appended to \<open>result\<close>; an exception of the request leaves the loop.
\<close>

fun request_loop ::
  "('a, 's) executor \<Rightarrow> int \<Rightarrow> int \<Rightarrow> int list \<Rightarrow> 'a list \<Rightarrow> 's \<Rightarrow> (exn + 'a list) \<times> 's" where
  "request_loop ex step original_to [] result s = (Inr result, s)"
| "request_loop ex step original_to (i # is) result s =
     (case ex i (min (i + step) original_to) s of
        (Inl e, s') \<Rightarrow> (Inl e, s')
      | (Inr items, s') \<Rightarrow> request_loop ex step original_to is (result @ items) s')"

text \<open>
  \<^verbatim>\<open>_handle_candle_response\<close>. \<open>now\<close> is \<^verbatim>\<open>time.time()\<close> rounded down to whole
  seconds: for an integer \<open>to\<close>, \<^verbatim>\<open>to > time.time()\<close> holds exactly when
  \<open>to > now\<close>, and \<^verbatim>\<open>int(time.time())\<close> is \<open>now\<close>.
\<close>

definition handle_candle_response ::
  "bool \<Rightarrow> int \<Rightarrow> ('a, 's) executor \<Rightarrow> string \<Rightarrow> string \<Rightarrow> int option \<Rightarrow> int option \<Rightarrow> 's
     \<Rightarrow> (exn + 'a list) \<times> 's" where
  "handle_candle_response split_request now ex endpoint resolution from to s =
     (case candle_step endpoint resolution of
        Inl e \<Rightarrow> (Inl e, s)
      | Inr step \<Rightarrow>
          (case (if \<not> split_request then split_guard resolution step from to else Inr ()) of
             Inl e \<Rightarrow> (Inl e, s)
           | Inr _ \<Rightarrow>
               (let from' = (case from of None \<Rightarrow> DATA_EPOCH | Some f \<Rightarrow> f);
                    to' = (case to of None \<Rightarrow> now | Some t \<Rightarrow> if t > now then now else t);
                    original_to = to'
                in if step = 0 then (Inl (ValueError RangeStepZero), s)
                   else request_loop ex step original_to (py_range from' to' step) [] s)))"


text \<open>
  An executor that also keeps a journal: every call appends the window it was called
  with and what it answered.
\<close>

definition journalled ::
  "('a, 's) executor \<Rightarrow> ('a, ((int \<times> int) \<times> (exn + 'a list)) list \<times> 's) executor" where
  "journalled ex a b js =
     (case ex a b (snd js) of (r, s') \<Rightarrow> (r, (fst js @ [((a, b), r)], s')))"

text \<open>A sample executor: it answers with the window it was asked for and counts the calls.\<close>

definition echo_executor :: "(int \<times> int, nat) executor" where
  "echo_executor a b n = (Inr [(a, b)], Suc n)"

section \<open>Parameter validators\<close>




text \<open>Python's truth value of an optional integer: None and 0 are false.\<close>

definition truthy :: "int option \<Rightarrow> bool" where
  "truthy v = (case v of None \<Rightarrow> False | Some n \<Rightarrow> n \<noteq> 0)"


text \<open>
  \<^verbatim>\<open>_validate_resolution\<close>: the eleven codes of \<^verbatim>\<open>Timeframes\<close>. The endpoint
  methods call it before \<^verbatim>\<open>_handle_candle_response\<close> upper-cases the resolution.
\<close>

definition validate_resolution :: "string \<Rightarrow> exn + unit" where
  "validate_resolution resolution =
     (if resolution \<notin> set [''M1'', ''M5'', ''M10'', ''M15'', ''M30'', ''H1'', ''H4'', ''H12'',
                             ''D1'', ''W1'', ''MN1'']
      then Inl (ValueError ResolutionNotAllowed)
      else Inr ())"

text \<open>\<^verbatim>\<open>_validate_limit\<close> and \<^verbatim>\<open>_validate_page\<close>.\<close>

definition validate_limit :: "int option \<Rightarrow> exn + unit" where
  "validate_limit limit =
     (if \<not> truthy limit then Inr ()
      else if the limit < fst LIMIT_LIMITS \<or> the limit > snd LIMIT_LIMITS
           then Inl (ValueError LimitOutOfBounds)
      else Inr ())"

definition validate_page :: "int option \<Rightarrow> exn + unit" where
  "validate_page page =
     (if \<not> truthy page then Inr ()
      else if the page < fst PAGE_LIMITS then Inl (ValueError PageTooSmall)
      else if the page > snd PAGE_LIMITS then Inl (ValueError PageTooBig)
      else Inr ())"

text \<open>\<^verbatim>\<open>xs.index(x)\<close>, the first position of \<open>x\<close>; Python raises when there is none.\<close>

fun index :: "'a list \<Rightarrow> 'a \<Rightarrow> exn + nat" where
  "index [] x = Inl (ValueError NotInList)"
| "index (y # ys) x =
     (if y = x then Inr 0 else (case index ys x of Inl e \<Rightarrow> Inl e | Inr n \<Rightarrow> Inr (Suc n)))"

text \<open>\<^verbatim>\<open>xs[n]\<close> for a non-negative \<open>n\<close>.\<close>

definition item :: "'a list \<Rightarrow> nat \<Rightarrow> exn + 'a" where
  "item xs n = (if n < length xs then Inr (xs ! n) else Inl IndexError)"

text \<open>\<^verbatim>\<open>_validate_chain\<close>.\<close>

definition validate_chain :: "chain_arg \<Rightarrow> exn + chain_arg" where
  "validate_chain chain =
     (if chain \<notin> set CHAIN_SUPPORTED_VALUES then Inl (ValueError ChainNotSupported)
      else (case index CHAIN_SUPPORTED_VALUES chain of
              Inl e \<Rightarrow> Inl e
            | Inr n \<Rightarrow> item CHAIN_SUPPORTED_VALUES (n mod CHAINS_NUMBER)))"

section \<open>JSON values, schema tables and hydrated values\<close>

text \<open>
  A decoded JSON value. A float is kept as mantissa and exponent (2.5 is
  \<open>JFloat 5 (- 1)\<close>, five halves); no operation below looks inside it. A JSON object is
  the list of its items in iteration order.
\<close>

datatype json =
    JNull
  | JBool bool
  | JInt int
  | JFloat int int
  | JStr string
  | JList "json list"
  | JDict "(string \<times> json) list"

text \<open>
  The values found in \<^verbatim>\<open>_attributes_to_types\<close>: the constructors
  \<^verbatim>\<open>float\<close>, \<^verbatim>\<open>str\<close>, \<^verbatim>\<open>int\<close>, \<^verbatim>\<open>bool\<close>, the function
  \<^verbatim>\<open>isoparse\<close>, a class of this module, and \<^verbatim>\<open>typing.List[C]\<close> for a class \<open>C\<close>.
\<close>

datatype pytype = PyFloat | PyStr | PyInt | PyBool | Isoparse | ClassRef string | ListOf string

record Definition =
  class_name :: string
  api_name_to_python :: "(string \<times> string) list"
  attribute_is_primitive :: "(string \<times> bool) list"
  attributes_to_types :: "(string \<times> pytype) list"

text \<open>
  What unmarshalling produces: a value left as decoded (\<open>Raw JNull\<close> is Python's None),
  an instance of a Definition subclass with its attribute dictionary, a list, or a dict.
\<close>

datatype val =
    Raw json
  | Obj string "(string \<times> val) list"
  | VList "val list"
  | VDict "(string \<times> val) list"

text \<open>
  The environment of the unmarshaller: the registry \<^verbatim>\<open>models.name_to_class\<close>; what
  calling an entry of \<^verbatim>\<open>_attributes_to_types\<close> on a decoded value returns or raises
  (the five scalar coercions are Python's and dateutil's own); \<^verbatim>\<open>keyword.iskeyword\<close>;
  and what lines 54 to 63 of \<^verbatim>\<open>_unmarshal_json_object\<close> compute for an item when an
  attribute of the instance named \<^verbatim>\<open>_attribute_is_primitive\<close> or
  \<^verbatim>\<open>_attributes_to_types\<close> is read in place of the table of the class (Python's
  subscript, membership and truth value on arbitrary decoded values), given the
  attributes of the instance, the class, the attribute name found for the key and the
  value of the item.
\<close>

record env =
  classes :: "(string \<times> Definition) list"
  coerce :: "pytype \<Rightarrow> json \<Rightarrow> exn + val"
  iskeyword :: "string \<Rightarrow> bool"
  shadowed_value :: "(string \<times> val) list \<Rightarrow> Definition \<Rightarrow> val \<Rightarrow> json \<Rightarrow> exn + val"

text \<open>\<^verbatim>\<open>s.split(sep)\<close> for a non-empty separator.\<close>

function split_from :: "string \<Rightarrow> string \<Rightarrow> string \<Rightarrow> string list" where
  "split_from sep acc [] = [acc]"
| "split_from sep acc (c # cs) =
     (if sep \<noteq> [] \<and> prefix sep (c # cs)
      then acc # split_from sep [] (drop (length sep) (c # cs))
      else split_from sep (acc @ [c]) cs)"
  by pat_completeness auto
termination
  by (relation "measure (\<lambda>(sep, acc, s). length s)") (auto simp: neq_Nil_conv)

definition split :: "string \<Rightarrow> string \<Rightarrow> string list" where
  "split s sep = split_from sep [] s"

text \<open>\<^verbatim>\<open>response_type.split(sep)[1][:-1]\<close>.\<close>

definition inner_type :: "string \<Rightarrow> string \<Rightarrow> exn + string" where
  "inner_type response_type sep =
     (case item (split response_type sep) 1 of
        Inl e \<Rightarrow> Inl e
      | Inr s \<Rightarrow> Inr (butlast s))"

text \<open>
  \<^verbatim>\<open>list_type.split("[")[1][:-1]\<close> in \<^verbatim>\<open>Definition.unmarshal_json\<close>, where
  \<^verbatim>\<open>list_type\<close> is an entry of \<^verbatim>\<open>_attributes_to_types\<close>, never a string: the
  classes \<^verbatim>\<open>float\<close>, \<^verbatim>\<open>int\<close>, \<^verbatim>\<open>bool\<close>, the Definition subclasses, the function
  \<^verbatim>\<open>isoparse\<close> and \<^verbatim>\<open>typing.List[C]\<close> have no attribute \<^verbatim>\<open>split\<close>; for the class
  \<^verbatim>\<open>str\<close> the call \<^verbatim>\<open>str.split("[")\<close> is \<^verbatim>\<open>"[".split()\<close>, the one-element list
  \<^verbatim>\<open>["["]\<close>, and index 1 is out of range.
\<close>

definition list_type_inner :: "pytype \<Rightarrow> exn + string" where
  "list_type_inner list_type =
     (case list_type of PyStr \<Rightarrow> Inl IndexError | _ \<Rightarrow> Inl AttributeError)"

text \<open>The scalar table \<^verbatim>\<open>name_to_class\<close> of the module \<^verbatim>\<open>unmarshal\<close>.\<close>

definition scalar_name_to_class :: "(string \<times> pytype) list" where
  "scalar_name_to_class = [(''int'', PyInt), (''float'', PyFloat), (''str'', PyStr)]"

text \<open>
  \<^verbatim>\<open>self.__setattr__(name, value)\<close> on an instance of a Definition subclass, whose
  attribute dictionary is \<open>attrs\<close>. \<^verbatim>\<open>self.__setattr__\<close> is looked up on the
  instance first, so an attribute of that name set earlier is what gets called, and a
  decoded value or an entity is not callable. Otherwise \<^verbatim>\<open>object.__setattr__\<close>
  runs: the three names \<^verbatim>\<open>__class__\<close>, \<^verbatim>\<open>__weakref__\<close> and \<^verbatim>\<open>__dict__\<close> are
  data descriptors of the class and are not stored in the dictionary.
  \<^verbatim>\<open>__class__\<close> accepts only a class, \<^verbatim>\<open>__weakref__\<close> is read-only, and
  \<^verbatim>\<open>__dict__\<close> accepts only a dict, which then replaces the attribute dictionary
  as a whole. Every other name is stored: replaced in place, or appended.
\<close>

definition py_setattr ::
  "(string \<times> val) list \<Rightarrow> string \<Rightarrow> val \<Rightarrow> exn + (string \<times> val) list" where
  "py_setattr attrs name v =
     (if ''__setattr__'' \<in> fst ` set attrs then Inl TypeError
      else if name = ''__class__'' then Inl TypeError
      else if name = ''__weakref__'' then Inl AttributeError
      else if name = ''__dict__'' then
        (case v of
           Raw (JDict kvs) \<Rightarrow> Inr (map (\<lambda>kv. (fst kv, Raw (snd kv))) kvs)
         | VDict kvs \<Rightarrow> Inr kvs
         | _ \<Rightarrow> Inl TypeError)
      else Inr (AList.update name v attrs))"

text \<open>
  The attribute names that the loop of \<^verbatim>\<open>_unmarshal_json_object\<close> does not merely
  store: the three that \<^verbatim>\<open>object.__setattr__\<close> treats apart, and the four that the
  loop itself reads on the instance.
\<close>

definition special_names :: "string list" where
  "special_names =
     [''__dict__'', ''__class__'', ''__weakref__'', ''__setattr__'',
      ''_api_name_to_python'', ''_attribute_is_primitive'', ''_attributes_to_types'']"

text \<open>\<^verbatim>\<open>key in t\<close> and \<^verbatim>\<open>t[key]\<close> for a string \<open>key\<close> and a value \<open>t\<close>.\<close>

definition py_in_str :: "string \<Rightarrow> val \<Rightarrow> exn + bool" where
  "py_in_str key t =
     (case t of
        Raw (JDict kvs) \<Rightarrow> Inr (key \<in> fst ` set kvs)
      | Raw (JList xs) \<Rightarrow> Inr (JStr key \<in> set xs)
      | Raw (JStr s) \<Rightarrow> Inr (contains key s)
      | Raw _ \<Rightarrow> Inl TypeError
      | VDict kvs \<Rightarrow> Inr (key \<in> fst ` set kvs)
      | VList vs \<Rightarrow> Inr (Raw (JStr key) \<in> set vs)
      | Obj c attrs \<Rightarrow> Inl TypeError)"

definition py_subscript_str :: "val \<Rightarrow> string \<Rightarrow> exn + val" where
  "py_subscript_str t key =
     (case t of
        Raw (JDict kvs) \<Rightarrow> (case map_of kvs key of None \<Rightarrow> Inl KeyError | Some x \<Rightarrow> Inr (Raw x))
      | VDict kvs \<Rightarrow> (case map_of kvs key of None \<Rightarrow> Inl KeyError | Some x \<Rightarrow> Inr x)
      | _ \<Rightarrow> Inl TypeError)"

text \<open>\<^verbatim>\<open>key + ('_' if keyword.iskeyword(key) else '')\<close>.\<close>

definition keyword_safe :: "env \<Rightarrow> string \<Rightarrow> string" where
  "keyword_safe \<Gamma> key = key @ (if iskeyword \<Gamma> key then [CHR ''_''] else [])"

text \<open>
  The attribute a payload key is stored under by an instance that has no attribute
  \<^verbatim>\<open>_api_name_to_python\<close> of its own: its entry in the table of the class, or the key
  made keyword-safe.
\<close>

definition attribute_name_of :: "env \<Rightarrow> Definition \<Rightarrow> string \<Rightarrow> string" where
  "attribute_name_of \<Gamma> d key =
     (case map_of (api_name_to_python d) key of
        Some a \<Rightarrow> a
      | None \<Rightarrow> keyword_safe \<Gamma> key)"

text \<open>The size of a decoded value below its root: one for every value strictly inside it.\<close>

fun inner_size :: "json \<Rightarrow> nat" where
  "inner_size (JList xs) = sum_list (map (\<lambda>x. Suc (inner_size x)) xs)"
| "inner_size (JDict kvs) = sum_list (map (\<lambda>kv. Suc (inner_size (snd kv))) kvs)"
| "inner_size _ = 0"

text \<open>
  The unmarshaller. \<open>unmarshal_json\<close> is the function of the module \<^verbatim>\<open>unmarshal\<close>,
  \<open>dict_items\<close> its dict comprehension. The others are the methods of
  \<^verbatim>\<open>Definition\<close>, an instance being its class and its attribute dictionary:
  \<open>unmarshal_json_list\<close>; \<open>unmarshal_json_object\<close>, the loop over the items still to
  come on the attribute dictionary of \<^verbatim>\<open>self\<close>; \<open>item_step\<close>, the body of that loop
  up to the assignment, which gives the attribute name and the value to assign;
  \<open>item_value\<close>, lines 54 to 63 for an attribute name and the tables of the class; and
  \<open>definition_unmarshal_json\<close>, the method \<^verbatim>\<open>unmarshal_json\<close> called on a new
  instance, as every call in the sources is.

  \<^verbatim>\<open>self._api_name_to_python\<close>, \<^verbatim>\<open>self._attribute_is_primitive\<close> and
  \<^verbatim>\<open>self._attributes_to_types\<close> are read on the instance first: an attribute of that
  name set by an earlier item takes the place of the table of the class. An attribute
  name read from such a value need not be a string; the class's dict
  \<^verbatim>\<open>_attribute_is_primitive\<close> then raises TypeError for a list or a dict, which
  cannot be hashed, and KeyError for anything else.

  In \<open>item_value\<close>, \<^verbatim>\<open>str(model)\<close> of a class \<open>C\<close> is
  \<^verbatim>\<open><class 'helixirapi.models.definitions.C'>\<close>, which contains \<^verbatim>\<open>List\<close> when the
  name of \<open>C\<close> does, and a class has no \<^verbatim>\<open>__args__\<close>; \<^verbatim>\<open>model()\<close> is a new
  instance of the class, found here by its name in the registry, which holds every
  class of the module; \<^verbatim>\<open>float()\<close>, \<^verbatim>\<open>str()\<close>, \<^verbatim>\<open>int()\<close> and \<^verbatim>\<open>bool()\<close> have
  no method \<^verbatim>\<open>unmarshal_json\<close>, and \<^verbatim>\<open>isoparse()\<close> lacks its argument. In
  \<open>unmarshal_json\<close>, \<^verbatim>\<open>obj.unmarshal_json(resp_json)\<close> is called for what it does to
  \<^verbatim>\<open>obj\<close>, and \<^verbatim>\<open>obj\<close> is returned. In \<open>definition_unmarshal_json\<close>, a string
  or None as input matches no branch and the method returns None.
\<close>

function unmarshal_json :: "env \<Rightarrow> string \<Rightarrow> json \<Rightarrow> exn + val"
  and dict_items :: "env \<Rightarrow> string \<Rightarrow> (string \<times> json) list \<Rightarrow> exn + (string \<times> val) list"
  and unmarshal_json_list :: "env \<Rightarrow> json list \<Rightarrow> string \<Rightarrow> exn + val list"
  and unmarshal_json_object ::
    "env \<Rightarrow> Definition \<Rightarrow> (string \<times> val) list \<Rightarrow> (string \<times> json) list
       \<Rightarrow> exn + (string \<times> val) list"
  and item_step ::
    "env \<Rightarrow> Definition \<Rightarrow> (string \<times> val) list \<Rightarrow> string \<Rightarrow> json \<Rightarrow> exn + (string \<times> val)"
  and item_value :: "env \<Rightarrow> Definition \<Rightarrow> string \<Rightarrow> json \<Rightarrow> exn + val"
  and definition_unmarshal_json :: "env \<Rightarrow> Definition \<Rightarrow> json \<Rightarrow> exn + val"
where
  "unmarshal_json \<Gamma> response_type resp_json =
     (case map_of scalar_name_to_class response_type of
        Some ty \<Rightarrow> coerce \<Gamma> ty resp_json
      | None \<Rightarrow>
         (case resp_json of
            JList xs \<Rightarrow>
              (case (if contains ''List['' response_type then inner_type response_type ''[''
                     else Inr response_type) of
                 Inl e \<Rightarrow> Inl e
               | Inr known_type \<Rightarrow>
                   (case unmarshal_json_list \<Gamma> xs known_type of
                      Inl e \<Rightarrow> Inl e
                    | Inr items \<Rightarrow> Inr (VList items)))
          | _ \<Rightarrow>
              if contains ''Dict['' response_type then
                (case inner_type response_type '', '' of
                   Inl e \<Rightarrow> Inl e
                 | Inr known_type \<Rightarrow>
                     (case resp_json of
                        JDict kvs \<Rightarrow>
                          (case dict_items \<Gamma> known_type kvs of
                             Inl e \<Rightarrow> Inl e
                           | Inr r \<Rightarrow> Inr (VDict r))
                      | _ \<Rightarrow> Inl AttributeError))
              else
                (case getitem (classes \<Gamma>) response_type of
                   Inl e \<Rightarrow> Inl e
                 | Inr d \<Rightarrow>
                     (case definition_unmarshal_json \<Gamma> d resp_json of
                        Inl e \<Rightarrow> Inl e
                      | Inr (Obj c attrs) \<Rightarrow> Inr (Obj c attrs)
                      | Inr _ \<Rightarrow> Inr (Obj (class_name d) [])))))"
| "dict_items \<Gamma> known_type [] = Inr []"
| "dict_items \<Gamma> known_type ((k, v) # kvs) =
     (case unmarshal_json \<Gamma> known_type v of
        Inl e \<Rightarrow> Inl e
      | Inr r \<Rightarrow>
          (case dict_items \<Gamma> known_type kvs of
             Inl e \<Rightarrow> Inl e
           | Inr rs \<Rightarrow> Inr ((k, r) # rs)))"
| "unmarshal_json_list \<Gamma> [] known_type = Inr []"
| "unmarshal_json_list \<Gamma> (x # xs) known_type =
     (case getitem (classes \<Gamma>) known_type of
        Inl e \<Rightarrow> Inl e
      | Inr d \<Rightarrow>
          (case (case x of
                   JDict kvs \<Rightarrow> unmarshal_json_object \<Gamma> d [] kvs
                 | _ \<Rightarrow> Inl AttributeError) of
             Inl e \<Rightarrow> Inl e
           | Inr attrs \<Rightarrow>
               (case unmarshal_json_list \<Gamma> xs known_type of
                  Inl e \<Rightarrow> Inl e
                | Inr items \<Rightarrow> Inr (Obj (class_name d) attrs # items))))"
| "unmarshal_json_object \<Gamma> d attrs [] = Inr attrs"
| "unmarshal_json_object \<Gamma> d attrs ((key, v) # kvs) =
     (case item_step \<Gamma> d attrs key v of
        Inl e \<Rightarrow> Inl e
      | Inr (attribute_name, v') \<Rightarrow>
          (case py_setattr attrs attribute_name v' of
             Inl e \<Rightarrow> Inl e
           | Inr attrs' \<Rightarrow> unmarshal_json_object \<Gamma> d attrs' kvs))"
| "item_step \<Gamma> d attrs key v =
     (case (case map_of attrs ''_api_name_to_python'' of
              None \<Rightarrow> Inr (map_option (\<lambda>a. Raw (JStr a)) (map_of (api_name_to_python d) key))
            | Some t \<Rightarrow>
                (case py_in_str key t of
                   Inl e \<Rightarrow> Inl e
                 | Inr False \<Rightarrow> Inr None
                 | Inr True \<Rightarrow>
                     (case py_subscript_str t key of
                        Inl e \<Rightarrow> Inl e
                      | Inr x \<Rightarrow> Inr (Some x)))) of
        Inl e \<Rightarrow> Inl e
      | Inr None \<Rightarrow> Inr (keyword_safe \<Gamma> key, Raw v)
      | Inr (Some x) \<Rightarrow>
          if ''_attribute_is_primitive'' \<in> fst ` set attrs
             \<or> ''_attributes_to_types'' \<in> fst ` set attrs
          then
            (case shadowed_value \<Gamma> attrs d x v of
               Inl e \<Rightarrow> Inl e
             | Inr v' \<Rightarrow>
                 (case x of Raw (JStr a) \<Rightarrow> Inr (a, v') | _ \<Rightarrow> Inl TypeError))
          else
            (case x of
               Raw (JStr a) \<Rightarrow>
                 (case item_value \<Gamma> d a v of Inl e \<Rightarrow> Inl e | Inr v' \<Rightarrow> Inr (a, v'))
             | Raw (JList xs) \<Rightarrow> Inl TypeError
             | Raw (JDict kvs) \<Rightarrow> Inl TypeError
             | VList vs \<Rightarrow> Inl TypeError
             | VDict kvs \<Rightarrow> Inl TypeError
             | _ \<Rightarrow> Inl KeyError))"
| "item_value \<Gamma> d attribute_name v =
     (case getitem (attribute_is_primitive d) attribute_name of
        Inl e \<Rightarrow> Inl e
      | Inr primitive \<Rightarrow>
          if \<not> primitive then
            (case map_of (attributes_to_types d) attribute_name of
               None \<Rightarrow> Inr (Raw v)
             | Some (ListOf c) \<Rightarrow> unmarshal_json \<Gamma> (''List['' @ c @ '']'') v
             | Some (ClassRef c) \<Rightarrow>
                 if contains ''List'' c then Inl AttributeError
                 else
                   (case getitem (classes \<Gamma>) c of
                      Inl e \<Rightarrow> Inl e
                    | Inr d' \<Rightarrow> definition_unmarshal_json \<Gamma> d' v)
             | Some Isoparse \<Rightarrow> Inl TypeError
             | Some _ \<Rightarrow> Inl AttributeError)
          else
            (case getitem (attributes_to_types d) attribute_name of
               Inl e \<Rightarrow> Inl e
             | Inr ty \<Rightarrow> coerce \<Gamma> ty v))"
| "definition_unmarshal_json \<Gamma> d input_json =
     (case input_json of
        JList xs \<Rightarrow>
          (case item (map snd (api_name_to_python d)) 0 of
             Inl e \<Rightarrow> Inl e
           | Inr list_attribute_name \<Rightarrow>
               (case (case map_of (attributes_to_types d) list_attribute_name of
                        Some list_type \<Rightarrow>
                          (case list_type_inner list_type of
                             Inl e \<Rightarrow> Inl e
                           | Inr known_type \<Rightarrow>
                               (case unmarshal_json_list \<Gamma> xs known_type of
                                  Inl e \<Rightarrow> Inl e
                                | Inr items \<Rightarrow> Inr (VList items)))
                      | None \<Rightarrow> Inr (Raw input_json)) of
                  Inl e \<Rightarrow> Inl e
                | Inr list_items \<Rightarrow>
                    (case py_setattr [] list_attribute_name list_items of
                       Inl e \<Rightarrow> Inl e
                     | Inr attrs \<Rightarrow> Inr (Obj (class_name d) attrs))))
      | JDict kvs \<Rightarrow>
          (case unmarshal_json_object \<Gamma> d [] kvs of
             Inl e \<Rightarrow> Inl e
           | Inr attrs \<Rightarrow> Inr (Obj (class_name d) attrs))
      | JFloat m e \<Rightarrow> Inr (Raw input_json)
      | JInt n \<Rightarrow> Inr (Raw input_json)
      | JBool b \<Rightarrow> Inr (Raw input_json)
      | _ \<Rightarrow> Inr (Raw JNull))"
  by pat_completeness auto
termination
  by (relation "measure (\<lambda>x. case x of
        Inl (Inl (\<Gamma>, rt, j)) \<Rightarrow> 8 * Suc (inner_size j) + 1
      | Inl (Inr (Inl (\<Gamma>, kt, kvs))) \<Rightarrow>
          8 * sum_list (map (\<lambda>kv. Suc (inner_size (snd kv))) kvs) + 7
      | Inl (Inr (Inr (\<Gamma>, xs, kt))) \<Rightarrow>
          8 * sum_list (map (\<lambda>x. Suc (inner_size x)) xs) + 7
      | Inr (Inl (Inl (\<Gamma>, d, attrs, kvs))) \<Rightarrow>
          8 * sum_list (map (\<lambda>kv. Suc (inner_size (snd kv))) kvs) + 7
      | Inr (Inl (Inr (\<Gamma>, d, attrs, key, v))) \<Rightarrow> 8 * Suc (inner_size v) + 3
      | Inr (Inr (Inl (\<Gamma>, d, a, v))) \<Rightarrow> 8 * Suc (inner_size v) + 2
      | Inr (Inr (Inr (\<Gamma>, d, j))) \<Rightarrow> 8 * Suc (inner_size j))") auto

declare unmarshal_json.simps [simp del]
declare item_step.simps [simp del]
declare item_value.simps [simp del]
declare definition_unmarshal_json.simps [simp del]

section \<open>The registered response classes\<close>

text \<open>
  The three tables of every subclass of \<^verbatim>\<open>Definition\<close> in \<^verbatim>\<open>definitions.py\<close>, in
  the order of the file; \<^verbatim>\<open>BasicPoolInfo\<close> and \<^verbatim>\<open>BasicOptimizerPoolInfo\<close> are
  declared twice there, with the same tables. The class \<^verbatim>\<open>Domain\<close> is \<open>DomainDef\<close>
  here.
\<close>

definition PoolBalance :: Definition where
  "PoolBalance = \<lparr>
     class_name = ''PoolBalance'',
     api_name_to_python =
       [(''balance'', ''balance''), (''pending_reward'', ''pending_reward''),
        (''pending_reward_price'', ''pending_reward_price''), (''price'', ''price''),
        (''reward_token'', ''reward_token''), (''token'', ''token''),
        (''token_address'', ''token_address'')],
     attribute_is_primitive =
       [(''balance'', True), (''pending_reward'', True),
        (''pending_reward_price'', True), (''price'', True), (''reward_token'', True),
        (''token'', True), (''token_address'', True)],
     attributes_to_types =
       [(''balance'', PyFloat), (''pending_reward'', PyFloat),
        (''pending_reward_price'', PyFloat), (''price'', PyFloat),
        (''reward_token'', PyStr), (''token'', PyStr), (''token_address'', PyStr)]\<rparr>"

definition WhitelistedAddress :: Definition where
  "WhitelistedAddress = \<lparr>
     class_name = ''WhitelistedAddress'',
     api_name_to_python =
       [(''address'', ''address''), (''id'', ''id'')],
     attribute_is_primitive =
       [(''address'', True), (''id'', True)],
     attributes_to_types =
       [(''address'', PyStr), (''id'', PyInt)]\<rparr>"

definition FarmPortfolio :: Definition where
  "FarmPortfolio = \<lparr>
     class_name = ''FarmPortfolio'',
     api_name_to_python =
       [(''farm_icon'', ''farm_icon''), (''farm_name'', ''farm_name''),
        (''farm_true_name'', ''farm_true_name''), (''pools_balance'', ''pools_balance'')],
     attribute_is_primitive =
       [(''farm_icon'', True), (''farm_name'', True), (''farm_true_name'', True),
        (''pools_balance'', False)],
     attributes_to_types =
       [(''farm_icon'', PyStr), (''farm_name'', PyStr), (''farm_true_name'', PyStr),
        (''pools_balance'', ListOf ''PoolBalance'')]\<rparr>"

definition TokenResponse :: Definition where
  "TokenResponse = \<lparr>
     class_name = ''TokenResponse'',
     api_name_to_python =
       [(''active'', ''active''), (''chain'', ''chain''),
        (''circulating_supply'', ''circulating_supply''), (''contract'', ''contract''),
        (''decimals'', ''decimals''), (''id'', ''id''), (''name'', ''name''),
        (''symbol'', ''symbol''), (''total_supply'', ''total_supply'')],
     attribute_is_primitive =
       [(''active'', True), (''chain'', True), (''circulating_supply'', True),
        (''contract'', True), (''decimals'', True), (''id'', True), (''name'', True),
        (''symbol'', True), (''total_supply'', True)],
     attributes_to_types =
       [(''active'', PyBool), (''chain'', PyStr), (''circulating_supply'', PyFloat),
        (''contract'', PyStr), (''decimals'', PyFloat), (''id'', PyInt),
        (''name'', PyStr), (''symbol'', PyStr), (''total_supply'', PyFloat)]\<rparr>"

definition BasicPoolInfo :: Definition where
  "BasicPoolInfo = \<lparr>
     class_name = ''BasicPoolInfo'',
     api_name_to_python =
       [(''apr'', ''apr''), (''apy'', ''apy''), (''reward_token'', ''reward_token''),
        (''token'', ''token''), (''token_address'', ''token_address''),
        (''tvl'', ''tvl'')],
     attribute_is_primitive =
       [(''apr'', True), (''apy'', True), (''reward_token'', True), (''token'', True),
        (''token_address'', True), (''tvl'', True)],
     attributes_to_types =
       [(''apr'', PyFloat), (''apy'', PyFloat), (''reward_token'', PyStr),
        (''token'', PyStr), (''token_address'', PyStr), (''tvl'', PyFloat)]\<rparr>"

definition BasicOptimizerPoolInfo :: Definition where
  "BasicOptimizerPoolInfo = \<lparr>
     class_name = ''BasicOptimizerPoolInfo'',
     api_name_to_python =
       [(''apy'', ''apy''), (''farm_apr'', ''farm_apr''),
        (''from_platform'', ''from_platform''), (''reward_token'', ''reward_token''),
        (''rewards_apr'', ''rewards_apr''), (''token'', ''token''),
        (''token_address'', ''token_address''), (''tvl'', ''tvl'')],
     attribute_is_primitive =
       [(''apy'', True), (''farm_apr'', True), (''from_platform'', True),
        (''reward_token'', True), (''rewards_apr'', True), (''token'', True),
        (''token_address'', True), (''tvl'', True)],
     attributes_to_types =
       [(''apy'', PyFloat), (''farm_apr'', PyFloat), (''from_platform'', PyStr),
        (''reward_token'', PyStr), (''rewards_apr'', PyFloat), (''token'', PyStr),
        (''token_address'', PyStr), (''tvl'', PyFloat)]\<rparr>"

definition DomainDef :: Definition where
  "DomainDef = \<lparr>
     class_name = ''Domain'',
     api_name_to_python =
       [(''authority'', ''authority''), (''url'', ''url'')],
     attribute_is_primitive =
       [(''authority'', True), (''url'', True)],
     attributes_to_types =
       [(''authority'', PyInt), (''url'', PyStr)]\<rparr>"

definition Tag :: Definition where
  "Tag = \<lparr>
     class_name = ''Tag'',
     api_name_to_python =
       [(''id'', ''id''), (''tag'', ''tag'')],
     attribute_is_primitive =
       [(''id'', True), (''tag'', True)],
     attributes_to_types =
       [(''id'', PyInt), (''tag'', PyStr)]\<rparr>"

definition BasicPool :: Definition where
  "BasicPool = \<lparr>
     class_name = ''BasicPool'',
     api_name_to_python =
       [(''reward_token'', ''reward_token''), (''token'', ''token''),
        (''token_address'', ''token_address'')],
     attribute_is_primitive =
       [(''reward_token'', True), (''token'', True), (''token_address'', True)],
     attributes_to_types =
       [(''reward_token'', PyStr), (''token'', PyStr), (''token_address'', PyStr)]\<rparr>"

definition BasicOptimizerPool :: Definition where
  "BasicOptimizerPool = \<lparr>
     class_name = ''BasicOptimizerPool'',
     api_name_to_python =
       [(''from_platform'', ''from_platform''), (''reward_token'', ''reward_token''),
        (''token'', ''token''), (''token_address'', ''token_address'')],
     attribute_is_primitive =
       [(''from_platform'', True), (''reward_token'', True), (''token'', True),
        (''token_address'', True)],
     attributes_to_types =
       [(''from_platform'', PyStr), (''reward_token'', PyStr), (''token'', PyStr),
        (''token_address'', PyStr)]\<rparr>"

definition Balance :: Definition where
  "Balance = \<lparr>
     class_name = ''Balance'',
     api_name_to_python =
       [(''createdAt'', ''createdAt''), (''portfolio'', ''portfolio''),
        (''wallet'', ''wallet''), (''walletID'', ''walletID'')],
     attribute_is_primitive =
       [(''createdAt'', True), (''portfolio'', True), (''wallet'', False),
        (''walletID'', True)],
     attributes_to_types =
       [(''createdAt'', PyStr), (''portfolio'', PyStr),
        (''wallet'', ClassRef ''WhitelistedAddress''), (''walletID'', PyInt)]\<rparr>"

definition BalanceMove :: Definition where
  "BalanceMove = \<lparr>
     class_name = ''BalanceMove'',
     api_name_to_python =
       [(''move'', ''move''), (''timestamp'', ''timestamp''),
        (''token_id'', ''token_id''), (''wallet_id'', ''wallet_id'')],
     attribute_is_primitive =
       [(''move'', True), (''timestamp'', True), (''token_id'', True),
        (''wallet_id'', True)],
     attributes_to_types =
       [(''move'', PyFloat), (''timestamp'', PyStr), (''token_id'', PyInt),
        (''wallet_id'', PyInt)]\<rparr>"

definition BalanceMoveLP :: Definition where
  "BalanceMoveLP = \<lparr>
     class_name = ''BalanceMoveLP'',
     api_name_to_python =
       [(''move'', ''move''), (''timestamp'', ''timestamp''),
        (''token_id'', ''token_id''), (''wallet_id'', ''wallet_id'')],
     attribute_is_primitive =
       [(''move'', True), (''timestamp'', True), (''token_id'', True),
        (''wallet_id'', True)],
     attributes_to_types =
       [(''move'', PyFloat), (''timestamp'', PyStr), (''token_id'', PyInt),
        (''wallet_id'', PyInt)]\<rparr>"

definition Liquidity :: Definition where
  "Liquidity = \<lparr>
     class_name = ''Liquidity'',
     api_name_to_python =
       [(''platform_id'', ''platform_id''), (''reserve_0'', ''reserve_0''),
        (''reserve_1'', ''reserve_1''), (''timestamp'', ''timestamp''),
        (''token_id'', ''token_id'')],
     attribute_is_primitive =
       [(''platform_id'', True), (''reserve_0'', True), (''reserve_1'', True),
        (''timestamp'', True), (''token_id'', True)],
     attributes_to_types =
       [(''platform_id'', PyInt), (''reserve_0'', PyFloat), (''reserve_1'', PyFloat),
        (''timestamp'', PyStr), (''token_id'', PyInt)]\<rparr>"

definition PriceTick :: Definition where
  "PriceTick = \<lparr>
     class_name = ''PriceTick'',
     api_name_to_python =
       [(''circulating_supply'', ''circulating_supply''),
        (''platform_id'', ''platform_id''), (''price_peg'', ''price_peg''),
        (''price_stable'', ''price_stable''), (''timestamp'', ''timestamp''),
        (''token_id'', ''token_id'')],
     attribute_is_primitive =
       [(''circulating_supply'', True), (''platform_id'', True), (''price_peg'', True),
        (''price_stable'', True), (''timestamp'', True), (''token_id'', True)],
     attributes_to_types =
       [(''circulating_supply'', PyFloat), (''platform_id'', PyInt),
        (''price_peg'', PyFloat), (''price_stable'', PyFloat), (''timestamp'', PyStr),
        (''token_id'', PyInt)]\<rparr>"

definition VolumeTick :: Definition where
  "VolumeTick = \<lparr>
     class_name = ''VolumeTick'',
     api_name_to_python =
       [(''platform_id'', ''platform_id''), (''timestamp'', ''timestamp''),
        (''token_id'', ''token_id''), (''volume'', ''volume'')],
     attribute_is_primitive =
       [(''platform_id'', True), (''timestamp'', True), (''token_id'', True),
        (''volume'', True)],
     attributes_to_types =
       [(''platform_id'', PyInt), (''timestamp'', PyStr), (''token_id'', PyInt),
        (''volume'', PyFloat)]\<rparr>"

definition ActiveAddressesResponse :: Definition where
  "ActiveAddressesResponse = \<lparr>
     class_name = ''ActiveAddressesResponse'',
     api_name_to_python =
       [(''count'', ''count''), (''time'', ''time'')],
     attribute_is_primitive =
       [(''count'', True), (''time'', True)],
     attributes_to_types =
       [(''count'', PyInt), (''time'', Isoparse)]\<rparr>"

definition FarmResponse :: Definition where
  "FarmResponse = \<lparr>
     class_name = ''FarmResponse'',
     api_name_to_python =
       [(''name'', ''name''), (''true_name'', ''true_name''), (''tvl'', ''tvl'')],
     attribute_is_primitive =
       [(''name'', True), (''true_name'', True), (''tvl'', True)],
     attributes_to_types =
       [(''name'', PyStr), (''true_name'', PyStr), (''tvl'', PyFloat)]\<rparr>"

definition FarmsPortfolioResponse :: Definition where
  "FarmsPortfolioResponse = \<lparr>
     class_name = ''FarmsPortfolioResponse'',
     api_name_to_python =
       [(''lp_pools'', ''lp_pools''), (''optimizer_lp_pools'', ''optimizer_lp_pools''),
        (''optimizer_single_asset_pools'', ''optimizer_single_asset_pools''),
        (''single_asset_pools'', ''single_asset_pools'')],
     attribute_is_primitive =
       [(''lp_pools'', False), (''optimizer_lp_pools'', False),
        (''optimizer_single_asset_pools'', False), (''single_asset_pools'', False)],
     attributes_to_types =
       [(''lp_pools'', ListOf ''FarmPortfolio''),
        (''optimizer_lp_pools'', ListOf ''FarmPortfolio''),
        (''optimizer_single_asset_pools'', ListOf ''FarmPortfolio''),
        (''single_asset_pools'', ListOf ''FarmPortfolio'')]\<rparr>"

definition LPLiquidityResponse :: Definition where
  "LPLiquidityResponse = \<lparr>
     class_name = ''LPLiquidityResponse'',
     api_name_to_python =
       [(''liquidity_0'', ''liquidity_0''), (''liquidity_1'', ''liquidity_1''),
        (''time'', ''time'')],
     attribute_is_primitive =
       [(''liquidity_0'', True), (''liquidity_1'', True), (''time'', True)],
     attributes_to_types =
       [(''liquidity_0'', PyFloat), (''liquidity_1'', PyFloat), (''time'', Isoparse)]\<rparr>"

definition LPMoveResponse :: Definition where
  "LPMoveResponse = \<lparr>
     class_name = ''LPMoveResponse'',
     api_name_to_python =
       [(''amount_0'', ''amount_0''), (''amount_1'', ''amount_1''), (''time'', ''time''),
        (''token_contract'', ''token_contract''), (''token_symbol'', ''token_symbol'')],
     attribute_is_primitive =
       [(''amount_0'', True), (''amount_1'', True), (''time'', True),
        (''token_contract'', True), (''token_symbol'', True)],
     attributes_to_types =
       [(''amount_0'', PyFloat), (''amount_1'', PyFloat), (''time'', Isoparse),
        (''token_contract'', PyStr), (''token_symbol'', PyStr)]\<rparr>"

definition LPTokenResponse :: Definition where
  "LPTokenResponse = \<lparr>
     class_name = ''LPTokenResponse'',
     api_name_to_python =
       [(''chain'', ''chain''), (''contract'', ''contract''),
        (''decimals'', ''decimals''), (''id'', ''id''), (''name'', ''name''),
        (''symbol'', ''symbol''), (''token_0'', ''token_0''), (''token_1'', ''token_1''),
        (''total_supply'', ''total_supply'')],
     attribute_is_primitive =
       [(''chain'', True), (''contract'', True), (''decimals'', True), (''id'', True),
        (''name'', True), (''symbol'', True), (''token_0'', False), (''token_1'', False),
        (''total_supply'', True)],
     attributes_to_types =
       [(''chain'', PyStr), (''contract'', PyStr), (''decimals'', PyFloat),
        (''id'', PyInt), (''name'', PyStr), (''symbol'', PyStr),
        (''token_0'', ClassRef ''TokenResponse''),
        (''token_1'', ClassRef ''TokenResponse''), (''total_supply'', PyFloat)]\<rparr>"

definition PoolsInfoResponse :: Definition where
  "PoolsInfoResponse = \<lparr>
     class_name = ''PoolsInfoResponse'',
     api_name_to_python =
       [(''lp_pools'', ''lp_pools''), (''optimizer_lp_pools'', ''optimizer_lp_pools''),
        (''optimizer_single_asset_pools'', ''optimizer_single_asset_pools''),
        (''single_asset_pools'', ''single_asset_pools'')],
     attribute_is_primitive =
       [(''lp_pools'', False), (''optimizer_lp_pools'', False),
        (''optimizer_single_asset_pools'', False), (''single_asset_pools'', False)],
     attributes_to_types =
       [(''lp_pools'', ListOf ''BasicPoolInfo''),
        (''optimizer_lp_pools'', ListOf ''BasicOptimizerPoolInfo''),
        (''optimizer_single_asset_pools'', ListOf ''BasicOptimizerPoolInfo''),
        (''single_asset_pools'', ListOf ''BasicPoolInfo'')]\<rparr>"

definition PoolsResponse :: Definition where
  "PoolsResponse = \<lparr>
     class_name = ''PoolsResponse'',
     api_name_to_python =
       [(''lp_pools'', ''lp_pools''), (''optimizer_lp_pools'', ''optimizer_lp_pools''),
        (''optimizer_single_asset_pools'', ''optimizer_single_asset_pools''),
        (''single_asset_pools'', ''single_asset_pools'')],
     attribute_is_primitive =
       [(''lp_pools'', False), (''optimizer_lp_pools'', False),
        (''optimizer_single_asset_pools'', False), (''single_asset_pools'', False)],
     attributes_to_types =
       [(''lp_pools'', ListOf ''BasicPool''),
        (''optimizer_lp_pools'', ListOf ''BasicOptimizerPool''),
        (''optimizer_single_asset_pools'', ListOf ''BasicOptimizerPool''),
        (''single_asset_pools'', ListOf ''BasicPool'')]\<rparr>"

definition PortfolioResponse :: Definition where
  "PortfolioResponse = \<lparr>
     class_name = ''PortfolioResponse'',
     api_name_to_python =
       [(''portfolio'', ''portfolio''), (''time'', ''time'')],
     attribute_is_primitive =
       [(''portfolio'', True), (''time'', True)],
     attributes_to_types =
       [(''portfolio'', PyStr), (''time'', Isoparse)]\<rparr>"

definition TokenPortfolioResponse :: Definition where
  "TokenPortfolioResponse = \<lparr>
     class_name = ''TokenPortfolioResponse'',
     api_name_to_python =
       [(''balance'', ''balance''), (''token_address'', ''token_address''),
        (''token_icon'', ''token_icon''), (''token_name'', ''token_name''),
        (''token_symbol'', ''token_symbol''), (''usd_value'', ''usd_value'')],
     attribute_is_primitive =
       [(''balance'', True), (''token_address'', True), (''token_icon'', True),
        (''token_name'', True), (''token_symbol'', True), (''usd_value'', True)],
     attributes_to_types =
       [(''balance'', PyFloat), (''token_address'', PyStr), (''token_icon'', PyStr),
        (''token_name'', PyStr), (''token_symbol'', PyStr), (''usd_value'', PyFloat)]\<rparr>"

definition TokenPriceResponse :: Definition where
  "TokenPriceResponse = \<lparr>
     class_name = ''TokenPriceResponse'',
     api_name_to_python =
       [(''close'', ''close''), (''high'', ''high''), (''low'', ''low''),
        (''open'', ''open''), (''time'', ''time'')],
     attribute_is_primitive =
       [(''close'', True), (''high'', True), (''low'', True), (''open'', True),
        (''time'', True)],
     attributes_to_types =
       [(''close'', PyFloat), (''high'', PyFloat), (''low'', PyFloat),
        (''open'', PyFloat), (''time'', Isoparse)]\<rparr>"

definition TokenResponseExtended :: Definition where
  "TokenResponseExtended = \<lparr>
     class_name = ''TokenResponseExtended'',
     api_name_to_python =
       [(''active'', ''active''), (''chain'', ''chain''),
        (''circulating_supply'', ''circulating_supply''), (''contract'', ''contract''),
        (''decimals'', ''decimals''), (''id'', ''id''),
        (''liquidity_usd'', ''liquidity_usd''), (''market_cap'', ''market_cap''),
        (''name'', ''name''), (''price_change_24_h'', ''price_change_24_h''),
        (''price_change_7_d'', ''price_change_7_d''), (''price_peg'', ''price_peg''),
        (''price_usd'', ''price_usd''), (''symbol'', ''symbol''),
        (''total_supply'', ''total_supply''), (''volume_24_h'', ''volume_24_h'')],
     attribute_is_primitive =
       [(''active'', True), (''chain'', True), (''circulating_supply'', True),
        (''contract'', True), (''decimals'', True), (''id'', True),
        (''liquidity_usd'', True), (''market_cap'', True), (''name'', True),
        (''price_change_24_h'', True), (''price_change_7_d'', True),
        (''price_peg'', True), (''price_usd'', True), (''symbol'', True),
        (''total_supply'', True), (''volume_24_h'', True)],
     attributes_to_types =
       [(''active'', PyBool), (''chain'', PyStr), (''circulating_supply'', PyFloat),
        (''contract'', PyStr), (''decimals'', PyFloat), (''id'', PyInt),
        (''liquidity_usd'', PyFloat), (''market_cap'', PyFloat), (''name'', PyStr),
        (''price_change_24_h'', PyFloat), (''price_change_7_d'', PyFloat),
        (''price_peg'', PyFloat), (''price_usd'', PyFloat), (''symbol'', PyStr),
        (''total_supply'', PyFloat), (''volume_24_h'', PyFloat)]\<rparr>"

definition TradedVolumeResponse :: Definition where
  "TradedVolumeResponse = \<lparr>
     class_name = ''TradedVolumeResponse'',
     api_name_to_python =
       [(''time'', ''time''), (''volume'', ''volume'')],
     attribute_is_primitive =
       [(''time'', True), (''volume'', True)],
     attributes_to_types =
       [(''time'', Isoparse), (''volume'', PyFloat)]\<rparr>"

definition TransactionResponse :: Definition where
  "TransactionResponse = \<lparr>
     class_name = ''TransactionResponse'',
     api_name_to_python =
       [(''block'', ''block''), (''from_address'', ''from_address''),
        (''time'', ''time''), (''to_address'', ''to_address''), (''tx_fee'', ''tx_fee''),
        (''tx_hash'', ''tx_hash''), (''value'', ''value'')],
     attribute_is_primitive =
       [(''block'', True), (''from_address'', True), (''time'', True),
        (''to_address'', True), (''tx_fee'', True), (''tx_hash'', True),
        (''value'', True)],
     attributes_to_types =
       [(''block'', PyInt), (''from_address'', PyStr), (''time'', Isoparse),
        (''to_address'', PyStr), (''tx_fee'', PyFloat), (''tx_hash'', PyStr),
        (''value'', PyFloat)]\<rparr>"

definition WalletMoveResponse :: Definition where
  "WalletMoveResponse = \<lparr>
     class_name = ''WalletMoveResponse'',
     api_name_to_python =
       [(''amount'', ''amount''), (''time'', ''time''), (''token'', ''token'')],
     attribute_is_primitive =
       [(''amount'', True), (''time'', True), (''token'', True)],
     attributes_to_types =
       [(''amount'', PyFloat), (''time'', Isoparse), (''token'', PyStr)]\<rparr>"

definition MarketDepth :: Definition where
  "MarketDepth = \<lparr>
     class_name = ''MarketDepth'',
     api_name_to_python =
       [(''time'', ''time''), (''current_price'', ''current_price''),
        (''depth'', ''depth'')],
     attribute_is_primitive =
       [(''time'', True), (''current_price'', True), (''depth'', True)],
     attributes_to_types =
       [(''time'', Isoparse), (''current_price'', PyFloat), (''depth'', PyStr)]\<rparr>"

definition AvailableAsset :: Definition where
  "AvailableAsset = \<lparr>
     class_name = ''AvailableAsset'',
     api_name_to_python =
       [(''chain'', ''chain''), (''contract'', ''contract''),
        (''is_default'', ''is_default''), (''symbol'', ''symbol'')],
     attribute_is_primitive =
       [(''chain'', True), (''contract'', True), (''is_default'', True),
        (''symbol'', True)],
     attributes_to_types =
       [(''chain'', PyInt), (''contract'', PyStr), (''is_default'', PyBool),
        (''symbol'', PyStr)]\<rparr>"

definition DiscordPublicMessage :: Definition where
  "DiscordPublicMessage = \<lparr>
     class_name = ''DiscordPublicMessage'',
     api_name_to_python =
       [(''content'', ''content''), (''created_at'', ''created_at''), (''id'', ''id'')],
     attribute_is_primitive =
       [(''content'', True), (''created_at'', True), (''id'', True)],
     attributes_to_types =
       [(''content'', PyStr), (''created_at'', Isoparse), (''id'', PyInt)]\<rparr>"

definition PublicReadable :: Definition where
  "PublicReadable = \<lparr>
     class_name = ''PublicReadable'',
     api_name_to_python =
       [(''created_at'', ''created_at''), (''domain'', ''domain''),
        (''source'', ''source''), (''text'', ''text''), (''title'', ''title'')],
     attribute_is_primitive =
       [(''created_at'', True), (''domain'', False), (''source'', True),
        (''text'', True), (''title'', True)],
     attributes_to_types =
       [(''created_at'', Isoparse), (''domain'', ClassRef ''Domain''),
        (''source'', PyStr), (''text'', PyStr), (''title'', PyStr)]\<rparr>"

definition Readable :: Definition where
  "Readable = \<lparr>
     class_name = ''Readable'',
     api_name_to_python =
       [(''comment_count'', ''comment_count''), (''created_at'', ''created_at''),
        (''domain'', ''domain''), (''emotion'', ''emotion''), (''id'', ''id''),
        (''published_at'', ''published_at''), (''source'', ''source''),
        (''tags'', ''tags''), (''title'', ''title''), (''view_count'', ''view_count'')],
     attribute_is_primitive =
       [(''comment_count'', True), (''created_at'', True), (''domain'', False),
        (''emotion'', True), (''id'', True), (''published_at'', True),
        (''source'', True), (''tags'', False), (''title'', True), (''view_count'', True)],
     attributes_to_types =
       [(''comment_count'', PyInt), (''created_at'', Isoparse),
        (''domain'', ClassRef ''Domain''), (''emotion'', PyFloat), (''id'', PyInt),
        (''published_at'', PyStr), (''source'', PyStr), (''tags'', ListOf ''Tag''),
        (''title'', PyStr), (''view_count'', PyInt)]\<rparr>"

definition TelegramPublicMessage :: Definition where
  "TelegramPublicMessage = \<lparr>
     class_name = ''TelegramPublicMessage'',
     api_name_to_python =
       [(''content'', ''content''), (''created_at'', ''created_at''),
        (''message_id'', ''message_id''), (''sent_at'', ''sent_at'')],
     attribute_is_primitive =
       [(''content'', True), (''created_at'', True), (''message_id'', True),
        (''sent_at'', True)],
     attributes_to_types =
       [(''content'', PyStr), (''created_at'', Isoparse), (''message_id'', PyInt),
        (''sent_at'', Isoparse)]\<rparr>"

definition TweetPublic :: Definition where
  "TweetPublic = \<lparr>
     class_name = ''TweetPublic'',
     api_name_to_python =
       [(''content'', ''content''), (''created_at'', ''created_at''),
        (''tweet_id'', ''tweet_id'')],
     attribute_is_primitive =
       [(''content'', True), (''created_at'', True), (''tweet_id'', True)],
     attributes_to_types =
       [(''content'', PyStr), (''created_at'', Isoparse), (''tweet_id'', PyInt)]\<rparr>"

text \<open>
  The registry \<^verbatim>\<open>name_to_class\<close> of \<^verbatim>\<open>models/__init__.py\<close>, in the order of the
  file. \<^verbatim>\<open>unmarshal.py\<close> and \<^verbatim>\<open>definitions.py\<close> both reach it as
  \<^verbatim>\<open>models.name_to_class\<close>.
\<close>

definition name_to_class :: "(string \<times> Definition) list" where
  "name_to_class =
     [(''TokenPortfolioResponse'', TokenPortfolioResponse),
      (''BalanceMove'', BalanceMove), (''LPMoveResponse'', LPMoveResponse),
      (''TokenResponse'', TokenResponse), (''Domain'', DomainDef),
      (''TradedVolumeResponse'', TradedVolumeResponse),
      (''WhitelistedAddress'', WhitelistedAddress), (''TweetPublic'', TweetPublic),
      (''PublicReadable'', PublicReadable), (''Liquidity'', Liquidity), (''Tag'', Tag),
      (''LPLiquidityResponse'', LPLiquidityResponse), (''PoolsResponse'', PoolsResponse),
      (''PoolBalance'', PoolBalance), (''DiscordPublicMessage'', DiscordPublicMessage),
      (''PortfolioResponse'', PortfolioResponse),
      (''TelegramPublicMessage'', TelegramPublicMessage),
      (''PoolsInfoResponse'', PoolsInfoResponse), (''BasicPoolInfo'', BasicPoolInfo),
      (''FarmPortfolio'', FarmPortfolio), (''LPTokenResponse'', LPTokenResponse),
      (''AvailableAsset'', AvailableAsset), (''VolumeTick'', VolumeTick),
      (''Readable'', Readable), (''BalanceMoveLP'', BalanceMoveLP),
      (''TransactionResponse'', TransactionResponse), (''FarmResponse'', FarmResponse),
      (''TokenResponseExtended'', TokenResponseExtended),
      (''TokenPriceResponse'', TokenPriceResponse),
      (''BasicOptimizerPool'', BasicOptimizerPool), (''PriceTick'', PriceTick),
      (''BasicOptimizerPoolInfo'', BasicOptimizerPoolInfo),
      (''FarmsPortfolioResponse'', FarmsPortfolioResponse),
      (''WalletMoveResponse'', WalletMoveResponse),
      (''ActiveAddressesResponse'', ActiveAddressesResponse), (''Balance'', Balance),
      (''BasicPool'', BasicPool), (''MarketDepth'', MarketDepth)]"

text \<open>
  \<^verbatim>\<open>keyword.kwlist\<close> of Python 3.8 and of 3.10 and later (3.9 has one entry more,
  \<^verbatim>\<open>__peg_parser__\<close>), and \<^verbatim>\<open>keyword.iskeyword\<close>.
\<close>

definition kwlist :: "string list" where
  "kwlist =
     [''False'', ''None'', ''True'', ''and'', ''as'', ''assert'', ''async'', ''await'',
      ''break'', ''class'', ''continue'', ''def'', ''del'', ''elif'', ''else'', ''except'',
      ''finally'', ''for'', ''from'', ''global'', ''if'', ''import'', ''in'', ''is'',
      ''lambda'', ''nonlocal'', ''not'', ''or'', ''pass'', ''raise'', ''return'', ''try'',
      ''while'', ''with'', ''yield'']"

definition py_iskeyword :: "string \<Rightarrow> bool" where
  "py_iskeyword s = (s \<in> set kwlist)"

text \<open>
  The client's environment: the registry and Python's keyword test, over whatever the
  calls of the table entries and the reads of shadowed tables do.
\<close>

definition helixir_env ::
  "(pytype \<Rightarrow> json \<Rightarrow> exn + val)
     \<Rightarrow> ((string \<times> val) list \<Rightarrow> Definition \<Rightarrow> val \<Rightarrow> json \<Rightarrow> exn + val) \<Rightarrow> env" where
  "helixir_env coercion shadowed =
     \<lparr>classes = name_to_class, coerce = coercion, iskeyword = py_iskeyword,
      shadowed_value = shadowed\<rparr>"

text \<open>
  A sample of the coercions, on decoded values that already have the declared type:
  \<^verbatim>\<open>float\<close> of a float, \<^verbatim>\<open>str\<close> of a string, \<^verbatim>\<open>int\<close> of an int and
  \<^verbatim>\<open>bool\<close> of a boolean are the value itself. Every other call (conversion between
  types, parsing of text, \<^verbatim>\<open>isoparse\<close>) is outside the sample and answers with an
  error that says so; so does every read of a shadowed table.
\<close>

definition typed_coerce :: "pytype \<Rightarrow> json \<Rightarrow> exn + val" where
  "typed_coerce ty v =
     (case (ty, v) of
        (PyFloat, JFloat m e) \<Rightarrow> Inr (Raw v)
      | (PyStr, JStr s) \<Rightarrow> Inr (Raw v)
      | (PyInt, JInt n) \<Rightarrow> Inr (Raw v)
      | (PyBool, JBool b) \<Rightarrow> Inr (Raw v)
      | _ \<Rightarrow> Inl (External ''coercion outside the sample''))"

definition no_shadowed_value ::
  "(string \<times> val) list \<Rightarrow> Definition \<Rightarrow> val \<Rightarrow> json \<Rightarrow> exn + val" where
  "no_shadowed_value attrs d x v = Inl (External ''shadowed table outside the sample'')"

section \<open>The candle request loop: step, guard and sub-windows\<close>

lemma py_range_pos:
  "0 < s \<Longrightarrow> py_range a b s = (if a < b then a # py_range (a + s) b s else [])"
  by (subst py_range.simps) simp





lemma journalled_apply:
  "journalled ex a b (js, s) = (case ex a b s of (r, s') \<Rightarrow> (r, (js @ [((a, b), r)], s')))"
  by (simp add: journalled_def)



lemma contains_sublist: "contains sub s \<longleftrightarrow> sublist sub s"
  by (induction s) (simp_all add: sublist_Cons_right)

lemma candle_seconds_keys:
  "getitem candle_seconds r = Inr secs \<Longrightarrow>
     r = ''M1'' \<or> r = ''M5'' \<or> r = ''M10'' \<or> r = ''M15'' \<or> r = ''M30''
   \<or> r = ''H1'' \<or> r = ''H4'' \<or> r = ''H12'' \<or> r = ''D1''"
  by (simp add: getitem_def candle_seconds_def split: if_splits)

lemma step_tables:
  assumes "getitem candle_seconds r = Inr secs"
  shows "\<exists>w v. getitem candle_limits r = Inr w \<and> getitem strict_candle_limits r = Inr v
           \<and> 0 < secs \<and> 0 < v \<and> v \<le> w"
  using candle_seconds_keys [OF assms] assms
  apply (elim disjE)
  apply (simp_all add: getitem_def candle_seconds_def candle_limits_def strict_candle_limits_def)
  done

lemma candle_step_configured:
  assumes "getitem candle_seconds (upper resolution) = Inr secs"
  shows "\<exists>window. getitem (if sublist ''active_addresses'' endpoint \<or> sublist ''moves'' endpoint
                            then strict_candle_limits else candle_limits) (upper resolution)
                     = Inr window
           \<and> 0 < window \<and> 0 < secs
           \<and> candle_step endpoint resolution = Inr (min window (secs * 5000))"
proof -
  from step_tables [OF assms] obtain w v where
    wv: "getitem candle_limits (upper resolution) = Inr w"
        "getitem strict_candle_limits (upper resolution) = Inr v"
        "0 < secs" "0 < v" "v \<le> w"
    by blast
  show ?thesis
    using wv assms by (simp add: candle_step_def contains_sublist CANDLE_LIMIT_def)
qed








text \<open>
  C2. With \<open>split_request\<close> false, resolution \<open>H1\<close> and the interval
  \<open>[0, 2000000)\<close>, which is longer than the maximum span 1209600, no error is raised:
  \<open>delta\<close> is \<open>from - to\<close>, negative for every ascending interval, and the call goes on
  to issue two requests.
\<close>

theorem split_guard_accepts_long_interval:
  "candle_step ''56/tokens/0xabc/candles'' ''H1'' = Inr 1209600
   \<and> handle_candle_response False 2000000 (journalled echo_executor) ''56/tokens/0xabc/candles''
        ''H1'' (Some 0) (Some 2000000) ([], 0)
      = (Inr [(0, 1209600), (1209600, 2000000)],
         ([((0, 1209600), Inr [(0, 1209600)]), ((1209600, 2000000), Inr [(1209600, 2000000)])],
          2))"
  by (simp add: handle_candle_response_def candle_step_def upper_def upper_char_def getitem_def
        candle_limits_def candle_seconds_def CANDLE_LIMIT_def py_range_pos journalled_apply
        echo_executor_def split_guard_def)

text \<open>
  C6, as the claim states it, fails for the resolution codes without an entry in the
  tables: for \<open>W1\<close> and \<open>MN1\<close>, both accepted by the resolution validator, the lookup
  raises KeyError on either kind of endpoint and no span is computed.
\<close>

theorem max_span_week_resolution_counterexample:
  "validate_resolution ''W1'' = Inr () \<and> validate_resolution ''MN1'' = Inr ()
   \<and> candle_step ''56/tokens/0xabc/candles'' ''W1'' = Inl KeyError
   \<and> candle_step ''56/tokens/0xabc/active_addresses'' ''MN1'' = Inl KeyError"
  by (simp add: validate_resolution_def candle_step_def upper_def upper_char_def getitem_def
        candle_limits_def strict_candle_limits_def)

text \<open>
  C6, amended. For every resolution that has an entry in the table of candle durations
  and every endpoint, the step used by the loop is the minimum of the configured window
  and 5000 candle durations, the window being read from the strict table exactly when
  the endpoint contains \<open>active_addresses\<close> or \<open>moves\<close>, and from the relaxed table
  otherwise.
\<close>

theorem max_span_is_min_of_window_and_candle_cap:
  assumes "getitem candle_seconds (upper resolution) = Inr secs"
  shows "\<exists>window. getitem (if sublist ''active_addresses'' endpoint \<or> sublist ''moves'' endpoint
                            then strict_candle_limits else candle_limits) (upper resolution)
                     = Inr window
           \<and> candle_step endpoint resolution = Inr (min window (secs * 5000))"
  using candle_step_configured [OF assms] by blast

theorem max_span_is_min_of_window_and_candle_cap_witness:
  "getitem candle_seconds (upper ''m1'') = Inr 60
   \<and> candle_step ''56/tokens/0xabc/candles'' ''m1'' = Inr 300000
   \<and> candle_step ''56/tokens/0xabc/active_addresses'' ''m1'' = Inr 86400"
proof -
  have res: "getitem candle_seconds (upper ''m1'') = Inr 60"
    by (simp add: upper_def upper_char_def getitem_def candle_seconds_def)
  have up: "upper ''m1'' = ''M1''" by (simp add: upper_def upper_char_def)
  have ep: "\<not> (sublist ''active_addresses'' ''56/tokens/0xabc/candles''
                \<or> sublist ''moves'' ''56/tokens/0xabc/candles'')"
           "sublist ''active_addresses'' ''56/tokens/0xabc/active_addresses''"
    by (simp_all flip: contains_sublist)
  from max_span_is_min_of_window_and_candle_cap [OF res, of "''56/tokens/0xabc/candles''"]
  obtain w where w: "getitem candle_limits ''M1'' = Inr w"
    "candle_step ''56/tokens/0xabc/candles'' ''m1'' = Inr (min w (60 * 5000))"
    using ep(1) up by auto
  from w(1) have "w = 604800" by (simp add: getitem_def candle_limits_def)
  with w(2) have a: "candle_step ''56/tokens/0xabc/candles'' ''m1'' = Inr 300000" by simp
  from max_span_is_min_of_window_and_candle_cap [OF res, of "''56/tokens/0xabc/active_addresses''"]
  obtain v where v: "getitem strict_candle_limits ''M1'' = Inr v"
    "candle_step ''56/tokens/0xabc/active_addresses'' ''m1'' = Inr (min v (60 * 5000))"
    using ep(2) up by auto
  from v(1) have "v = 86400" by (simp add: getitem_def strict_candle_limits_def)
  with v(2) have b: "candle_step ''56/tokens/0xabc/active_addresses'' ''m1'' = Inr 86400" by simp
  from res a b show ?thesis by simp
qed

section \<open>The from/to pair\<close>




section \<open>Chain validation\<close>

lemma index_first_position:
  "index xs x = Inr k \<Longrightarrow> k < length xs \<and> xs ! k = x \<and> (\<forall>j<k. xs ! j \<noteq> x)"
proof (induction xs arbitrary: k)
  case Nil
  then show ?case by simp
next
  case (Cons y ys)
  show ?case
  proof (cases "y = x")
    case True
    with Cons.prems show ?thesis by simp
  next
    case False
    with Cons.prems obtain n where n: "index ys x = Inr n" "k = Suc n"
      by (auto split: sum.splits)
    from Cons.IH [OF n(1)] False n(2) show ?thesis
      by (auto simp: nth_Cons split: nat.splits)
  qed
qed

lemma supported_cases:
  "c \<in> set CHAIN_SUPPORTED_VALUES \<Longrightarrow>
     c = ChainInt 56 \<or> c = ChainInt 1 \<or> c = ChainInt 137 \<or> c = ChainInt 43114 \<or> c = ChainInt 250
   \<or> c = ChainStr ''BSC'' \<or> c = ChainStr ''ETH'' \<or> c = ChainStr ''POLYGON''
   \<or> c = ChainStr ''AVAX'' \<or> c = ChainStr ''FTM''
   \<or> c = ChainStr ''bsc'' \<or> c = ChainStr ''eth'' \<or> c = ChainStr ''polygon''
   \<or> c = ChainStr ''avax'' \<or> c = ChainStr ''ftm''
   \<or> c = ChainStr ''56'' \<or> c = ChainStr ''1'' \<or> c = ChainStr ''137''
   \<or> c = ChainStr ''43114'' \<or> c = ChainStr ''250''"
  unfolding CHAIN_SUPPORTED_VALUES_def by (simp only: set_simps insert_iff empty_iff simp_thms)

lemma validate_chain_supported:
  assumes "c \<in> set CHAIN_SUPPORTED_VALUES"
  shows "\<exists>k n. index CHAIN_SUPPORTED_VALUES c = Inr k
       \<and> CHAIN_SUPPORTED_VALUES ! (k mod 5) = ChainInt n
       \<and> validate_chain c = Inr (ChainInt n)"
  using supported_cases [OF assms]
  apply (elim disjE)
  apply (simp_all add: validate_chain_def CHAIN_SUPPORTED_VALUES_def CHAINS_NUMBER_def item_def)
  done

text \<open>
  C7. Every value of the allow-list is normalised to the numeric chain ID found at
  position \<open>index mod 5\<close> of the allow-list, where \<open>index\<close> is the first position of
  the value; \<open>"56"\<close>, \<open>56\<close> and \<open>"BSC"\<close> all give 56; every value outside the allow-list,
  such as 999999, raises the chain ValueError.
\<close>

theorem validate_chain_normalises:
  "(\<forall>c \<in> set CHAIN_SUPPORTED_VALUES.
      \<exists>k n. k < length CHAIN_SUPPORTED_VALUES \<and> CHAIN_SUPPORTED_VALUES ! k = c
        \<and> (\<forall>j<k. CHAIN_SUPPORTED_VALUES ! j \<noteq> c)
        \<and> CHAIN_SUPPORTED_VALUES ! (k mod 5) = ChainInt n
        \<and> validate_chain c = Inr (ChainInt n))
   \<and> validate_chain (ChainStr ''56'') = Inr (ChainInt 56)
   \<and> validate_chain (ChainInt 56) = Inr (ChainInt 56)
   \<and> validate_chain (ChainStr ''BSC'') = Inr (ChainInt 56)
   \<and> (\<forall>c. c \<notin> set CHAIN_SUPPORTED_VALUES \<longrightarrow> validate_chain c = Inl (ValueError ChainNotSupported))
   \<and> validate_chain (ChainInt 999999) = Inl (ValueError ChainNotSupported)"
proof -
  have a: "\<exists>k n. k < length CHAIN_SUPPORTED_VALUES \<and> CHAIN_SUPPORTED_VALUES ! k = c
        \<and> (\<forall>j<k. CHAIN_SUPPORTED_VALUES ! j \<noteq> c)
        \<and> CHAIN_SUPPORTED_VALUES ! (k mod 5) = ChainInt n
        \<and> validate_chain c = Inr (ChainInt n)"
    if "c \<in> set CHAIN_SUPPORTED_VALUES" for c
  proof -
    from validate_chain_supported [OF that] obtain k n where
      kn: "index CHAIN_SUPPORTED_VALUES c = Inr k"
          "CHAIN_SUPPORTED_VALUES ! (k mod 5) = ChainInt n"
          "validate_chain c = Inr (ChainInt n)"
      by blast
    from index_first_position [OF kn(1)] kn(2,3) show ?thesis by blast
  qed
  have b: "validate_chain (ChainStr ''56'') = Inr (ChainInt 56)"
          "validate_chain (ChainInt 56) = Inr (ChainInt 56)"
          "validate_chain (ChainStr ''BSC'') = Inr (ChainInt 56)"
          "validate_chain (ChainInt 999999) = Inl (ValueError ChainNotSupported)"
    by (simp_all add: validate_chain_def CHAIN_SUPPORTED_VALUES_def CHAINS_NUMBER_def item_def)
  have c: "validate_chain c = Inl (ValueError ChainNotSupported)"
    if "c \<notin> set CHAIN_SUPPORTED_VALUES" for c
    using that by (simp add: validate_chain_def)
  from a b c show ?thesis by blast
qed

theorem validate_chain_normalises_witness:
  "ChainStr ''eth'' \<in> set CHAIN_SUPPORTED_VALUES
   \<and> validate_chain (ChainStr ''eth'') = Inr (ChainInt 1)
   \<and> ChainStr ''tron'' \<notin> set CHAIN_SUPPORTED_VALUES
   \<and> validate_chain (ChainStr ''tron'') = Inl (ValueError ChainNotSupported)"
proof -
  have m: "ChainStr ''eth'' \<in> set CHAIN_SUPPORTED_VALUES"
    and n: "ChainStr ''tron'' \<notin> set CHAIN_SUPPORTED_VALUES"
    by (simp_all add: CHAIN_SUPPORTED_VALUES_def)
  from validate_chain_normalises m obtain k i where
    ki: "k < length CHAIN_SUPPORTED_VALUES" "CHAIN_SUPPORTED_VALUES ! k = ChainStr ''eth''"
        "\<forall>j<k. CHAIN_SUPPORTED_VALUES ! j \<noteq> ChainStr ''eth''"
        "CHAIN_SUPPORTED_VALUES ! (k mod 5) = ChainInt i"
        "validate_chain (ChainStr ''eth'') = Inr (ChainInt i)"
    by blast
  have "CHAIN_SUPPORTED_VALUES ! 11 = ChainStr ''eth''"
    by (simp add: CHAIN_SUPPORTED_VALUES_def)
  with ki(3) have "\<not> 11 < k" by blast
  moreover have "\<forall>j<11. CHAIN_SUPPORTED_VALUES ! j \<noteq> ChainStr ''eth''"
    by (simp add: CHAIN_SUPPORTED_VALUES_def All_less_Suc numeral_eq_Suc)
  ultimately have "k = 11" using ki(2) by (meson linorder_neqE_nat)
  with ki(4) have "i = 1" by (simp add: CHAIN_SUPPORTED_VALUES_def)
  moreover from validate_chain_normalises n
  have "validate_chain (ChainStr ''tron'') = Inl (ValueError ChainNotSupported)"
    by blast
  ultimately show ?thesis using m n ki(5) by simp
qed

text \<open>
  C9. Chain validation is idempotent on the allow-list: the ID returned for a supported
  value is itself supported and is returned unchanged when validated again.
\<close>

theorem validate_chain_idempotent:
  assumes "c \<in> set CHAIN_SUPPORTED_VALUES"
  shows "\<exists>v. validate_chain c = Inr v \<and> v \<in> set CHAIN_SUPPORTED_VALUES
           \<and> validate_chain v = Inr v"
  using supported_cases [OF assms]
  apply (elim disjE)
  apply (simp_all add: validate_chain_def CHAIN_SUPPORTED_VALUES_def CHAINS_NUMBER_def item_def)
  done

theorem validate_chain_idempotent_witness:
  "ChainStr ''avax'' \<in> set CHAIN_SUPPORTED_VALUES
   \<and> validate_chain (ChainStr ''avax'') = Inr (ChainInt 43114)
   \<and> validate_chain (ChainInt 43114) = Inr (ChainInt 43114)"
proof -
  have m: "ChainStr ''avax'' \<in> set CHAIN_SUPPORTED_VALUES"
    by (simp add: CHAIN_SUPPORTED_VALUES_def)
  from validate_chain_idempotent [OF m] obtain v where
    v: "validate_chain (ChainStr ''avax'') = Inr v" "validate_chain v = Inr v"
    by blast
  have "validate_chain (ChainStr ''avax'') = Inr (ChainInt 43114)"
    by (simp add: validate_chain_def CHAIN_SUPPORTED_VALUES_def CHAINS_NUMBER_def item_def)
  with v have "v = ChainInt 43114" by simp
  with v m show ?thesis by simp
qed

section \<open>Limit and page validation\<close>

text \<open>
  C8. A limit of 0 and an absent limit are accepted without an error although 0 is
  outside the bounds (1, 500), and so are a page of 0 and an absent page; an error is
  raised exactly for a present, non-zero value outside the bounds.
\<close>

theorem validate_limit_page_falsy:
  "validate_limit (Some 0) = Inr () \<and> validate_limit None = Inr ()
   \<and> validate_page (Some 0) = Inr () \<and> validate_page None = Inr ()
   \<and> \<not> (fst LIMIT_LIMITS \<le> 0 \<and> 0 \<le> snd LIMIT_LIMITS)
   \<and> (\<forall>l. (\<exists>e. validate_limit l = Inl e)
          \<longleftrightarrow> (\<exists>n. l = Some n \<and> n \<noteq> 0 \<and> (n < 1 \<or> 500 < n)))
   \<and> (\<forall>p. (\<exists>e. validate_page p = Inl e)
          \<longleftrightarrow> (\<exists>n. p = Some n \<and> n \<noteq> 0 \<and> (n < 1 \<or> 922337203685477581 < n)))"
  by (auto simp: validate_limit_def validate_page_def truthy_def LIMIT_LIMITS_def
        PAGE_LIMITS_def split: option.splits)

theorem validate_limit_page_falsy_witness:
  "(\<exists>e. validate_limit (Some 501) = Inl e) \<and> (\<exists>e. validate_page (Some (- 1)) = Inl e)
   \<and> validate_limit (Some 500) = Inr ()"
proof -
  from validate_limit_page_falsy
  have l: "(\<exists>e. validate_limit l = Inl e)
             \<longleftrightarrow> (\<exists>n. l = Some n \<and> n \<noteq> 0 \<and> (n < 1 \<or> 500 < n))"
   and p: "(\<exists>e. validate_page p = Inl e)
             \<longleftrightarrow> (\<exists>n. p = Some n \<and> n \<noteq> 0 \<and> (n < 1 \<or> 922337203685477581 < n))"
    for l p by blast+
  have "\<exists>e. validate_limit (Some 501) = Inl e" by (simp add: l)
  moreover have "\<exists>e. validate_page (Some (- 1)) = Inl e" by (simp add: p)
  moreover have "\<not> (\<exists>e. validate_limit (Some 500) = Inl e)" by (simp add: l)
  then have "validate_limit (Some 500) = Inr ()" by (cases "validate_limit (Some 500)") auto
  ultimately show ?thesis by blast
qed

section \<open>Entity hydration\<close>

lemma not_key_map_of: "n \<notin> fst ` set attrs \<Longrightarrow> map_of attrs n = None"
  by (simp add: map_of_eq_None_iff)

lemma py_setattr_stores:
  "py_setattr attrs n v = Inr attrs' \<Longrightarrow> n \<noteq> ''__dict__'' \<Longrightarrow> attrs' = AList.update n v attrs"
  by (simp add: py_setattr_def split: if_splits)

lemma py_setattr_plain:
  "''__setattr__'' \<notin> fst ` set attrs \<Longrightarrow> n \<notin> set special_names \<Longrightarrow>
     py_setattr attrs n v = Inr (AList.update n v attrs)"
  by (simp add: py_setattr_def special_names_def)

lemma py_setattr_raises:
  "py_setattr attrs n v = Inl e \<Longrightarrow> ''__setattr__'' \<in> fst ` set attrs \<or> n \<in> set special_names"
  by (simp add: py_setattr_def special_names_def split: if_splits)

lemma update_keys: "fst ` set (AList.update n v attrs) = insert n (fst ` set attrs)"
  by (simp add: AList.dom_update)

lemma item_step_name:
  assumes "''_api_name_to_python'' \<notin> fst ` set attrs"
    and "item_step \<Gamma> d attrs key v = Inr (n, v')"
  shows "n = attribute_name_of \<Gamma> d key"
proof (cases "map_of (api_name_to_python d) key")
  case None
  with assms show ?thesis
    by (simp add: item_step.simps attribute_name_of_def not_key_map_of)
next
  case (Some a)
  with assms show ?thesis
    by (auto simp: item_step.simps attribute_name_of_def not_key_map_of
        split: if_splits sum.splits)
qed

lemma item_step_fresh:
  assumes "''_api_name_to_python'' \<notin> fst ` set attrs"
    and "''_attribute_is_primitive'' \<notin> fst ` set attrs"
    and "''_attributes_to_types'' \<notin> fst ` set attrs"
  shows "item_step \<Gamma> d attrs key v = item_step \<Gamma> d [] key v"
  using assms by (simp add: item_step.simps not_key_map_of split: option.splits)

lemma object_step:
  "unmarshal_json_object \<Gamma> d attrs ((key, v) # kvs) = Inr attrs' \<Longrightarrow>
     \<exists>n v' attrs1. item_step \<Gamma> d attrs key v = Inr (n, v')
       \<and> py_setattr attrs n v' = Inr attrs1
       \<and> unmarshal_json_object \<Gamma> d attrs1 kvs = Inr attrs'"
  by (auto split: sum.splits)

lemma object_step_stores:
  assumes run: "unmarshal_json_object \<Gamma> d attrs ((key, v) # kvs) = Inr attrs'"
    and own: "''_api_name_to_python'' \<notin> fst ` set attrs"
    and name: "attribute_name_of \<Gamma> d key \<noteq> ''__dict__''"
              "attribute_name_of \<Gamma> d key \<noteq> ''_api_name_to_python''"
  shows "\<exists>v'. item_step \<Gamma> d attrs key v = Inr (attribute_name_of \<Gamma> d key, v')
           \<and> unmarshal_json_object \<Gamma> d (AList.update (attribute_name_of \<Gamma> d key) v' attrs) kvs
               = Inr attrs'
           \<and> ''_api_name_to_python''
               \<notin> fst ` set (AList.update (attribute_name_of \<Gamma> d key) v' attrs)"
proof -
  from object_step [OF run] obtain n v' attrs1 where
    step: "item_step \<Gamma> d attrs key v = Inr (n, v')"
    and store: "py_setattr attrs n v' = Inr attrs1"
    and rest: "unmarshal_json_object \<Gamma> d attrs1 kvs = Inr attrs'"
    by blast
  from item_step_name [OF own step] have n: "n = attribute_name_of \<Gamma> d key" .
  from py_setattr_stores [OF store] n name(1) have "attrs1 = AList.update n v' attrs" by simp
  with step rest n own name(2) show ?thesis by (simp add: update_keys)
qed

lemma object_keys:
  assumes "unmarshal_json_object \<Gamma> d attrs kvs = Inr attrs'"
    and "''_api_name_to_python'' \<notin> fst ` set attrs"
    and "''__dict__'' \<notin> attribute_name_of \<Gamma> d ` fst ` set kvs"
    and "''_api_name_to_python'' \<notin> attribute_name_of \<Gamma> d ` fst ` set kvs"
  shows "fst ` set attrs' = fst ` set attrs \<union> attribute_name_of \<Gamma> d ` fst ` set kvs"
  using assms
proof (induction kvs arbitrary: attrs)
  case Nil
  then show ?case by simp
next
  case (Cons kv kvs)
  obtain key v where kv: "kv = (key, v)" by (cases kv)
  from Cons.prems(3,4) kv have name:
    "attribute_name_of \<Gamma> d key \<noteq> ''__dict__''"
    "attribute_name_of \<Gamma> d key \<noteq> ''_api_name_to_python''"
    and tail: "''__dict__'' \<notin> attribute_name_of \<Gamma> d ` fst ` set kvs"
      "''_api_name_to_python'' \<notin> attribute_name_of \<Gamma> d ` fst ` set kvs"
    by auto
  from object_step_stores [OF Cons.prems(1) [unfolded kv] Cons.prems(2) name] obtain v' where
    rest: "unmarshal_json_object \<Gamma> d (AList.update (attribute_name_of \<Gamma> d key) v' attrs) kvs
             = Inr attrs'"
    and own: "''_api_name_to_python''
               \<notin> fst ` set (AList.update (attribute_name_of \<Gamma> d key) v' attrs)"
    by blast
  from Cons.IH [OF rest own tail] show ?case
    by (simp add: kv update_keys)
qed

lemma object_frame:
  assumes "unmarshal_json_object \<Gamma> d attrs kvs = Inr attrs'"
    and "''_api_name_to_python'' \<notin> fst ` set attrs"
    and "''__dict__'' \<notin> attribute_name_of \<Gamma> d ` fst ` set kvs"
    and "''_api_name_to_python'' \<notin> attribute_name_of \<Gamma> d ` fst ` set kvs"
    and "n \<notin> attribute_name_of \<Gamma> d ` fst ` set kvs"
  shows "map_of attrs' n = map_of attrs n"
  using assms
proof (induction kvs arbitrary: attrs)
  case Nil
  then show ?case by simp
next
  case (Cons kv kvs)
  obtain key v where kv: "kv = (key, v)" by (cases kv)
  from Cons.prems(3,4,5) kv have name:
    "attribute_name_of \<Gamma> d key \<noteq> ''__dict__''"
    "attribute_name_of \<Gamma> d key \<noteq> ''_api_name_to_python''"
    and tail: "''__dict__'' \<notin> attribute_name_of \<Gamma> d ` fst ` set kvs"
      "''_api_name_to_python'' \<notin> attribute_name_of \<Gamma> d ` fst ` set kvs"
      "n \<notin> attribute_name_of \<Gamma> d ` fst ` set kvs"
    and ne: "n \<noteq> attribute_name_of \<Gamma> d key"
    by auto
  from object_step_stores [OF Cons.prems(1) [unfolded kv] Cons.prems(2) name] obtain v' where
    rest: "unmarshal_json_object \<Gamma> d (AList.update (attribute_name_of \<Gamma> d key) v' attrs) kvs
             = Inr attrs'"
    and own: "''_api_name_to_python''
               \<notin> fst ` set (AList.update (attribute_name_of \<Gamma> d key) v' attrs)"
    by blast
  from Cons.IH [OF rest own tail] ne show ?case
    by (simp add: AList.update_conv')
qed

lemma object_values:
  assumes "unmarshal_json_object \<Gamma> d attrs kvs = Inr attrs'"
    and "set special_names \<inter> (fst ` set attrs \<union> attribute_name_of \<Gamma> d ` fst ` set kvs) = {}"
    and "distinct (map (\<lambda>kv. attribute_name_of \<Gamma> d (fst kv)) kvs)"
    and "(k, v) \<in> set kvs"
  shows "\<exists>v'. item_step \<Gamma> d [] k v = Inr (attribute_name_of \<Gamma> d k, v')
           \<and> map_of attrs' (attribute_name_of \<Gamma> d k) = Some v'"
  using assms
proof (induction kvs arbitrary: attrs)
  case Nil
  then show ?case by simp
next
  case (Cons kv kvs)
  obtain key v0 where kv: "kv = (key, v0)" by (cases kv)
  let ?n = "attribute_name_of \<Gamma> d key"
  from Cons.prems(2) kv have plain: "?n \<notin> set special_names"
    "set special_names \<inter> fst ` set attrs = {}"
    and tail: "set special_names \<inter> attribute_name_of \<Gamma> d ` fst ` set kvs = {}"
    by (auto simp: disjoint_iff)
  from plain(2) have own: "''_api_name_to_python'' \<notin> fst ` set attrs"
    "''_attribute_is_primitive'' \<notin> fst ` set attrs"
    "''_attributes_to_types'' \<notin> fst ` set attrs"
    by (auto simp: special_names_def)
  from plain(1) have name: "?n \<noteq> ''__dict__''" "?n \<noteq> ''_api_name_to_python''"
    by (auto simp: special_names_def)
  from tail have tail2: "''__dict__'' \<notin> attribute_name_of \<Gamma> d ` fst ` set kvs"
    "''_api_name_to_python'' \<notin> attribute_name_of \<Gamma> d ` fst ` set kvs"
    by (auto simp: special_names_def)
  from object_step_stores [OF Cons.prems(1) [unfolded kv] own(1) name] obtain v0' where
    step: "item_step \<Gamma> d attrs key v0 = Inr (?n, v0')"
    and rest: "unmarshal_json_object \<Gamma> d (AList.update ?n v0' attrs) kvs = Inr attrs'"
    and own': "''_api_name_to_python'' \<notin> fst ` set (AList.update ?n v0' attrs)"
    by blast
  from Cons.prems(3) kv have fresh: "?n \<notin> attribute_name_of \<Gamma> d ` fst ` set kvs"
    and dist: "distinct (map (\<lambda>kv. attribute_name_of \<Gamma> d (fst kv)) kvs)"
    by (auto simp: image_iff)
  show ?case
  proof (cases "(k, v) = (key, v0)")
    case True
    from object_frame [OF rest own' tail2 fresh] have "map_of attrs' ?n = Some v0'"
      by (simp add: AList.update_conv')
    with step item_step_fresh [OF own] True show ?thesis by simp
  next
    case False
    with Cons.prems(4) kv have mem: "(k, v) \<in> set kvs" by auto
    from plain tail have
      "set special_names
         \<inter> (fst ` set (AList.update ?n v0' attrs) \<union> attribute_name_of \<Gamma> d ` fst ` set kvs)
       = {}"
      by (auto simp: update_keys disjoint_iff)
    from Cons.IH [OF rest this dist mem] show ?thesis .
  qed
qed

lemma object_returns:
  assumes "set special_names \<inter> (fst ` set attrs \<union> attribute_name_of \<Gamma> d ` fst ` set kvs) = {}"
    and "\<forall>kv \<in> set kvs. \<exists>r. item_step \<Gamma> d [] (fst kv) (snd kv) = Inr r"
  shows "\<exists>attrs'. unmarshal_json_object \<Gamma> d attrs kvs = Inr attrs'"
  using assms
proof (induction kvs arbitrary: attrs)
  case Nil
  then show ?case by simp
next
  case (Cons kv kvs)
  obtain key v where kv: "kv = (key, v)" by (cases kv)
  let ?n = "attribute_name_of \<Gamma> d key"
  from Cons.prems(1) kv have plain: "?n \<notin> set special_names"
    "set special_names \<inter> fst ` set attrs = {}"
    and tail: "set special_names \<inter> attribute_name_of \<Gamma> d ` fst ` set kvs = {}"
    by (auto simp: disjoint_iff)
  from plain(2) have own: "''_api_name_to_python'' \<notin> fst ` set attrs"
    "''_attribute_is_primitive'' \<notin> fst ` set attrs"
    "''_attributes_to_types'' \<notin> fst ` set attrs"
    and call: "''__setattr__'' \<notin> fst ` set attrs"
    by (auto simp: special_names_def)
  from Cons.prems(2) kv obtain n v' where "item_step \<Gamma> d [] key v = Inr (n, v')" by fastforce
  with item_step_fresh [OF own] have step: "item_step \<Gamma> d attrs key v = Inr (n, v')" by simp
  from item_step_name [OF own(1) step] have n: "n = ?n" .
  from py_setattr_plain [OF call plain(1)] have
    store: "py_setattr attrs ?n v' = Inr (AList.update ?n v' attrs)" .
  from plain tail have
    "set special_names
       \<inter> (fst ` set (AList.update ?n v' attrs) \<union> attribute_name_of \<Gamma> d ` fst ` set kvs)
     = {}"
    by (auto simp: update_keys disjoint_iff)
  moreover from Cons.prems(2) have
    "\<forall>kv \<in> set kvs. \<exists>r. item_step \<Gamma> d [] (fst kv) (snd kv) = Inr r" by simp
  ultimately obtain attrs' where
    "unmarshal_json_object \<Gamma> d (AList.update ?n v' attrs) kvs = Inr attrs'"
    using Cons.IH by blast
  with step n store kv show ?case by simp
qed

lemma object_raises:
  assumes "set special_names \<inter> (fst ` set attrs \<union> attribute_name_of \<Gamma> d ` fst ` set kvs) = {}"
    and "unmarshal_json_object \<Gamma> d attrs kvs = Inl e"
  shows "\<exists>kv \<in> set kvs. item_step \<Gamma> d [] (fst kv) (snd kv) = Inl e"
  using assms
proof (induction kvs arbitrary: attrs)
  case Nil
  then show ?case by simp
next
  case (Cons kv kvs)
  obtain key v where kv: "kv = (key, v)" by (cases kv)
  let ?n = "attribute_name_of \<Gamma> d key"
  from Cons.prems(1) kv have plain: "?n \<notin> set special_names"
    "set special_names \<inter> fst ` set attrs = {}"
    and tail: "set special_names \<inter> attribute_name_of \<Gamma> d ` fst ` set kvs = {}"
    by (auto simp: disjoint_iff)
  from plain(2) have own: "''_api_name_to_python'' \<notin> fst ` set attrs"
    "''_attribute_is_primitive'' \<notin> fst ` set attrs"
    "''_attributes_to_types'' \<notin> fst ` set attrs"
    and call: "''__setattr__'' \<notin> fst ` set attrs"
    by (auto simp: special_names_def)
  show ?case
  proof (cases "item_step \<Gamma> d attrs key v")
    case (Inl e')
    with Cons.prems(2) kv have "e' = e" by simp
    with Inl item_step_fresh [OF own, of \<Gamma> d key v] kv show ?thesis by simp
  next
    case (Inr r)
    obtain n v' where r: "r = (n, v')" by (cases r)
    from item_step_name [OF own(1) Inr [unfolded r]] have n: "n = ?n" .
    from py_setattr_plain [OF call plain(1)] have
      store: "py_setattr attrs ?n v' = Inr (AList.update ?n v' attrs)" .
    from Cons.prems(2) kv Inr r n store have
      rest: "unmarshal_json_object \<Gamma> d (AList.update ?n v' attrs) kvs = Inl e"
      by simp
    from plain tail have
      "set special_names
         \<inter> (fst ` set (AList.update ?n v' attrs) \<union> attribute_name_of \<Gamma> d ` fst ` set kvs)
       = {}"
      by (auto simp: update_keys disjoint_iff)
    from Cons.IH [OF this rest] show ?thesis by auto
  qed
qed

text \<open>
  C10, amended. Hydration of an entity from a JSON object, on the attribute dictionary
  it starts from, when the instance has no attribute \<^verbatim>\<open>_api_name_to_python\<close> of its
  own and no payload key derives the name \<^verbatim>\<open>__dict__\<close> or
  \<^verbatim>\<open>_api_name_to_python\<close>. When it returns, the attribute names are those present
  before together with the names derived from the payload's keys; every other attribute
  keeps the value it had, so a declared field that no payload key names and that was
  unset stays unset. When moreover none of the special names is an attribute of the
  instance or derived from a key: hydration returns whenever the step of every item
  returns, it raises only the error of an item's step, and, the derived names being
  distinct, each of them holds the value computed for its item. The name derived from a
  key is its entry in the field table, or the key itself with an underscore appended
  when it is a Python keyword.
\<close>

theorem hydration_sets_exactly_payload_attributes:
  assumes own: "''_api_name_to_python'' \<notin> fst ` set attrs"
      and names: "''__dict__'' \<notin> attribute_name_of \<Gamma> d ` fst ` set kvs"
                 "''_api_name_to_python'' \<notin> attribute_name_of \<Gamma> d ` fst ` set kvs"
  shows
   "(\<forall>attrs'. unmarshal_json_object \<Gamma> d attrs kvs = Inr attrs' \<longrightarrow>
       fst ` set attrs' = fst ` set attrs \<union> attribute_name_of \<Gamma> d ` fst ` set kvs
     \<and> (\<forall>n. n \<notin> attribute_name_of \<Gamma> d ` fst ` set kvs \<longrightarrow> map_of attrs' n = map_of attrs n)
     \<and> (\<forall>a \<in> snd ` set (api_name_to_python d).
           a \<notin> attribute_name_of \<Gamma> d ` fst ` set kvs \<and> map_of attrs a = None
             \<longrightarrow> map_of attrs' a = None))
   \<and> (set special_names \<inter> (fst ` set attrs \<union> attribute_name_of \<Gamma> d ` fst ` set kvs) = {} \<longrightarrow>
        ((\<forall>kv \<in> set kvs. \<exists>r. item_step \<Gamma> d [] (fst kv) (snd kv) = Inr r) \<longrightarrow>
           (\<exists>attrs'. unmarshal_json_object \<Gamma> d attrs kvs = Inr attrs'))
      \<and> (\<forall>e. unmarshal_json_object \<Gamma> d attrs kvs = Inl e \<longrightarrow>
           (\<exists>kv \<in> set kvs. item_step \<Gamma> d [] (fst kv) (snd kv) = Inl e))
      \<and> (\<forall>attrs'. unmarshal_json_object \<Gamma> d attrs kvs = Inr attrs'
             \<and> distinct (map (\<lambda>kv. attribute_name_of \<Gamma> d (fst kv)) kvs) \<longrightarrow>
           (\<forall>kv \<in> set kvs. \<exists>v'.
              item_step \<Gamma> d [] (fst kv) (snd kv) = Inr (attribute_name_of \<Gamma> d (fst kv), v')
              \<and> map_of attrs' (attribute_name_of \<Gamma> d (fst kv)) = Some v')))
   \<and> (\<forall>key. attribute_name_of \<Gamma> d key =
        (case map_of (api_name_to_python d) key of
           Some a \<Rightarrow> a
         | None \<Rightarrow> if iskeyword \<Gamma> key then key @ ''_'' else key))"
proof (intro conjI allI impI ballI)
  fix attrs' assume run: "unmarshal_json_object \<Gamma> d attrs kvs = Inr attrs'"
  show "fst ` set attrs' = fst ` set attrs \<union> attribute_name_of \<Gamma> d ` fst ` set kvs"
    by (rule object_keys [OF run own names])
  show "map_of attrs' n = map_of attrs n" if "n \<notin> attribute_name_of \<Gamma> d ` fst ` set kvs" for n
    by (rule object_frame [OF run own names that])
  show "map_of attrs' a = None"
    if "a \<in> snd ` set (api_name_to_python d)"
      "a \<notin> attribute_name_of \<Gamma> d ` fst ` set kvs \<and> map_of attrs a = None" for a
    using object_frame [OF run own names, of a] that(2) by simp
next
  assume "set special_names \<inter> (fst ` set attrs \<union> attribute_name_of \<Gamma> d ` fst ` set kvs) = {}"
    and "\<forall>kv \<in> set kvs. \<exists>r. item_step \<Gamma> d [] (fst kv) (snd kv) = Inr r"
  then show "\<exists>attrs'. unmarshal_json_object \<Gamma> d attrs kvs = Inr attrs'"
    by (rule object_returns)
next
  fix e
  assume "set special_names \<inter> (fst ` set attrs \<union> attribute_name_of \<Gamma> d ` fst ` set kvs) = {}"
    and "unmarshal_json_object \<Gamma> d attrs kvs = Inl e"
  then show "\<exists>kv \<in> set kvs. item_step \<Gamma> d [] (fst kv) (snd kv) = Inl e"
    by (rule object_raises)
next
  fix attrs' kv
  assume plain:
      "set special_names \<inter> (fst ` set attrs \<union> attribute_name_of \<Gamma> d ` fst ` set kvs) = {}"
    and run: "unmarshal_json_object \<Gamma> d attrs kvs = Inr attrs'
              \<and> distinct (map (\<lambda>kv. attribute_name_of \<Gamma> d (fst kv)) kvs)"
    and mem: "kv \<in> set kvs"
  obtain k v where kv: "kv = (k, v)" by (cases kv)
  from object_values [OF run [THEN conjunct1] plain run [THEN conjunct2] mem [unfolded kv]] kv
  show "\<exists>v'. item_step \<Gamma> d [] (fst kv) (snd kv) = Inr (attribute_name_of \<Gamma> d (fst kv), v')
              \<and> map_of attrs' (attribute_name_of \<Gamma> d (fst kv)) = Some v'"
    by simp
next
  fix key
  show "attribute_name_of \<Gamma> d key =
        (case map_of (api_name_to_python d) key of
           Some a \<Rightarrow> a
         | None \<Rightarrow> if iskeyword \<Gamma> key then key @ ''_'' else key)"
    by (simp add: attribute_name_of_def keyword_safe_def split: option.splits)
qed

lemma sample_env_fields:
  "coerce (helixir_env c sh) = c" "iskeyword (helixir_env c sh) = py_iskeyword"
  "classes (helixir_env c sh) = name_to_class" "shadowed_value (helixir_env c sh) = sh"
  by (simp_all add: helixir_env_def)

lemma PoolBalance_attribute_names:
  "attribute_name_of (helixir_env c sh) PoolBalance ''token'' = ''token''"
  "attribute_name_of (helixir_env c sh) PoolBalance ''class'' = ''class_''"
  "attribute_name_of (helixir_env c sh) PoolBalance ''__dict__'' = ''__dict__''"
  "attribute_name_of (helixir_env c sh) PoolBalance ''_api_name_to_python''
     = ''_api_name_to_python''"
  by (simp_all add: attribute_name_of_def keyword_safe_def PoolBalance_def sample_env_fields
      py_iskeyword_def kwlist_def)

lemma PoolBalance_fresh_steps:
  "item_step (helixir_env typed_coerce sh) PoolBalance [] ''token'' (JStr ''CAKE'')
     = Inr (''token'', Raw (JStr ''CAKE''))"
  "item_step (helixir_env c sh) PoolBalance [] ''class'' (JInt 1) = Inr (''class_'', Raw (JInt 1))"
  "item_step (helixir_env c sh) PoolBalance [] ''__dict__'' v = Inr (''__dict__'', Raw v)"
  "item_step (helixir_env c sh) PoolBalance [] ''_api_name_to_python'' v
     = Inr (''_api_name_to_python'', Raw v)"
  by (simp_all add: item_step.simps item_value.simps keyword_safe_def sample_env_fields
      PoolBalance_def getitem_def typed_coerce_def py_iskeyword_def kwlist_def)

lemma PoolBalance_run:
  "unmarshal_json_object (helixir_env typed_coerce sh) PoolBalance [(''note'', Raw (JStr ''kept''))]
     [(''token'', JStr ''CAKE''), (''class'', JInt 1)]
   = Inr [(''note'', Raw (JStr ''kept'')), (''token'', Raw (JStr ''CAKE'')),
          (''class_'', Raw (JInt 1))]"
proof -
  have fresh: "item_step (helixir_env typed_coerce sh) PoolBalance attrs key v
        = item_step (helixir_env typed_coerce sh) PoolBalance [] key v"
    if "fst ` set attrs \<subseteq> {''note'', ''token''}" for attrs key v
    using that by (intro item_step_fresh) auto
  show ?thesis
    by (simp add: fresh PoolBalance_fresh_steps py_setattr_def)
qed

theorem hydration_sets_exactly_payload_attributes_witness:
  "''_api_name_to_python'' \<notin> fst ` set [(''note'', Raw (JStr ''kept''))]
   \<and> attribute_name_of (helixir_env typed_coerce no_shadowed_value) PoolBalance
         ` fst ` set [(''token'', JStr ''CAKE''), (''class'', JInt 1)]
       = {''token'', ''class_''}
   \<and> unmarshal_json_object (helixir_env typed_coerce no_shadowed_value) PoolBalance
        [(''note'', Raw (JStr ''kept''))] [(''token'', JStr ''CAKE''), (''class'', JInt 1)]
     = Inr [(''note'', Raw (JStr ''kept'')), (''token'', Raw (JStr ''CAKE'')),
            (''class_'', Raw (JInt 1))]
   \<and> fst ` set [(''note'', Raw (JStr ''kept'')), (''token'', Raw (JStr ''CAKE'')),
                  (''class_'', Raw (JInt 1))]
       = fst ` set [(''note'', Raw (JStr ''kept''))]
         \<union> attribute_name_of (helixir_env typed_coerce no_shadowed_value) PoolBalance
             ` fst ` set [(''token'', JStr ''CAKE''), (''class'', JInt 1)]
   \<and> map_of [(''note'', Raw (JStr ''kept'')), (''token'', Raw (JStr ''CAKE'')),
              (''class_'', Raw (JInt 1))] ''note''
       = map_of [(''note'', Raw (JStr ''kept''))] ''note''
   \<and> ''balance'' \<in> snd ` set (api_name_to_python PoolBalance)
   \<and> map_of [(''note'', Raw (JStr ''kept'')), (''token'', Raw (JStr ''CAKE'')),
              (''class_'', Raw (JInt 1))] ''balance'' = None"
proof -
  let ?env = "helixir_env typed_coerce no_shadowed_value"
  let ?kvs = "[(''token'', JStr ''CAKE''), (''class'', JInt 1)]"
  let ?old = "[(''note'', Raw (JStr ''kept''))]"
  let ?new = "[(''note'', Raw (JStr ''kept'')), (''token'', Raw (JStr ''CAKE'')),
               (''class_'', Raw (JInt 1))]"
  let ?names = "attribute_name_of ?env PoolBalance ` fst ` set ?kvs"
  have own: "''_api_name_to_python'' \<notin> fst ` set ?old" by simp
  have names: "?names = {''token'', ''class_''}"
    by (simp add: PoolBalance_attribute_names)
  have out: "''__dict__'' \<notin> ?names" "''_api_name_to_python'' \<notin> ?names"
    "''note'' \<notin> ?names" "''balance'' \<notin> ?names"
    by (simp_all add: PoolBalance_attribute_names)
  have declared: "''balance'' \<in> snd ` set (api_name_to_python PoolBalance)"
    by (simp add: PoolBalance_def)
  have unset: "map_of ?old ''balance'' = None"
    by simp
  have run: "unmarshal_json_object ?env PoolBalance ?old ?kvs = Inr ?new"
    by (rule PoolBalance_run)
  note set_part =
    hydration_sets_exactly_payload_attributes
      [of ?old ?env PoolBalance ?kvs, OF own out(1,2), THEN conjunct1, rule_format, OF run]
  have keys: "fst ` set ?new = fst ` set ?old \<union> ?names"
    by (rule set_part [THEN conjunct1])
  have frame: "map_of ?new ''note'' = map_of ?old ''note''"
    by (rule set_part [THEN conjunct2, THEN conjunct1, rule_format, OF out(3)])
  have "map_of ?new ''balance'' = None"
    by (rule set_part [THEN conjunct2, THEN conjunct2, rule_format,
          OF declared conjI [OF out(4) unset]])
  with own names run keys frame declared
  show ?thesis by (intro conjI)
qed

text \<open>
  C10, as the claim states it, fails for two payload keys. The key \<^verbatim>\<open>__dict__\<close> with
  a JSON object as its value replaces the attribute dictionary: the attribute \<open>note\<close>
  is gone and \<open>y\<close>, which no payload key names, is there. The key
  \<^verbatim>\<open>_api_name_to_python\<close> puts its value in the place of the field table for the
  items that follow: the key \<open>token\<close> then sets the declared field \<open>reward_token\<close>,
  which the payload does not name, and \<open>token\<close> stays unset. So it is when the
  instance has that attribute before hydration begins.
\<close>

theorem hydration_special_names_counterexample:
  "attribute_name_of (helixir_env typed_coerce no_shadowed_value) PoolBalance ''__dict__''
     = ''__dict__''
   \<and> unmarshal_json_object (helixir_env typed_coerce no_shadowed_value) PoolBalance
        [(''note'', Raw (JStr ''kept''))] [(''__dict__'', JDict [(''y'', JInt 2)])]
     = Inr [(''y'', Raw (JInt 2))]
   \<and> attribute_name_of (helixir_env typed_coerce no_shadowed_value) PoolBalance
        ''_api_name_to_python'' = ''_api_name_to_python''
   \<and> attribute_name_of (helixir_env typed_coerce no_shadowed_value) PoolBalance ''token''
     = ''token''
   \<and> unmarshal_json_object (helixir_env typed_coerce no_shadowed_value) PoolBalance []
        [(''_api_name_to_python'', JDict [(''token'', JStr ''reward_token'')]),
         (''token'', JStr ''CAKE'')]
     = Inr [(''_api_name_to_python'', Raw (JDict [(''token'', JStr ''reward_token'')])),
            (''reward_token'', Raw (JStr ''CAKE''))]
   \<and> unmarshal_json_object (helixir_env typed_coerce no_shadowed_value) PoolBalance
        [(''_api_name_to_python'', Raw (JDict [(''token'', JStr ''reward_token'')]))]
        [(''token'', JStr ''CAKE'')]
     = Inr [(''_api_name_to_python'', Raw (JDict [(''token'', JStr ''reward_token'')])),
            (''reward_token'', Raw (JStr ''CAKE''))]"
proof -
  let ?env = "helixir_env typed_coerce no_shadowed_value"
  have a: "unmarshal_json_object ?env PoolBalance
        [(''note'', Raw (JStr ''kept''))] [(''__dict__'', JDict [(''y'', JInt 2)])]
     = Inr [(''y'', Raw (JInt 2))]"
  proof -
    have "item_step ?env PoolBalance [(''note'', Raw (JStr ''kept''))] ''__dict__''
            (JDict [(''y'', JInt 2)])
          = item_step ?env PoolBalance [] ''__dict__'' (JDict [(''y'', JInt 2)])"
      by (intro item_step_fresh) simp_all
    then show ?thesis
      by (simp add: PoolBalance_fresh_steps py_setattr_def)
  qed
  have shadowed:
    "item_step ?env PoolBalance
       [(''_api_name_to_python'', Raw (JDict [(''token'', JStr ''reward_token'')]))]
       ''token'' (JStr ''CAKE'')
     = Inr (''reward_token'', Raw (JStr ''CAKE''))"
    by (simp add: item_step.simps item_value.simps py_in_str_def py_subscript_str_def
        sample_env_fields PoolBalance_def getitem_def typed_coerce_def)
  have b: "unmarshal_json_object ?env PoolBalance []
        [(''_api_name_to_python'', JDict [(''token'', JStr ''reward_token'')]),
         (''token'', JStr ''CAKE'')]
     = Inr [(''_api_name_to_python'', Raw (JDict [(''token'', JStr ''reward_token'')])),
            (''reward_token'', Raw (JStr ''CAKE''))]"
    by (simp add: PoolBalance_fresh_steps shadowed py_setattr_def)
  have c: "unmarshal_json_object ?env PoolBalance
        [(''_api_name_to_python'', Raw (JDict [(''token'', JStr ''reward_token'')]))]
        [(''token'', JStr ''CAKE'')]
     = Inr [(''_api_name_to_python'', Raw (JDict [(''token'', JStr ''reward_token'')])),
            (''reward_token'', Raw (JStr ''CAKE''))]"
    by (simp add: shadowed py_setattr_def)
  from a b c show ?thesis
    by (simp add: PoolBalance_attribute_names)
qed

section \<open>Scalar and array payloads for an entity type\<close>

lemmas class_tables =
  PoolBalance_def WhitelistedAddress_def FarmPortfolio_def TokenResponse_def
  BasicPoolInfo_def BasicOptimizerPoolInfo_def DomainDef_def Tag_def BasicPool_def
  BasicOptimizerPool_def Balance_def BalanceMove_def BalanceMoveLP_def Liquidity_def
  PriceTick_def VolumeTick_def ActiveAddressesResponse_def FarmResponse_def
  FarmsPortfolioResponse_def LPLiquidityResponse_def LPMoveResponse_def
  LPTokenResponse_def PoolsInfoResponse_def PoolsResponse_def PortfolioResponse_def
  TokenPortfolioResponse_def TokenPriceResponse_def TokenResponseExtended_def
  TradedVolumeResponse_def TransactionResponse_def WalletMoveResponse_def
  MarketDepth_def AvailableAsset_def DiscordPublicMessage_def PublicReadable_def
  Readable_def TelegramPublicMessage_def TweetPublic_def

lemma registered_names:
  "list_all (\<lambda>(T, d). map_of scalar_name_to_class T = None \<and> \<not> contains ''Dict['' T
                \<and> \<not> contains ''List['' T) name_to_class"
  by (simp add: name_to_class_def scalar_name_to_class_def)

lemma registered_distinct: "distinct (map fst name_to_class)"
  by (simp add: name_to_class_def)

lemma registered_class_names: "list_all (\<lambda>(T, d). class_name d = T) name_to_class"
  by (simp add: name_to_class_def class_tables)

lemma registered_first_fields:
  "list_all (\<lambda>(T, d). \<exists>a ty. item (map snd (api_name_to_python d)) 0 = Inr a
                        \<and> map_of (attributes_to_types d) a = Some ty) name_to_class"
  by (simp add: name_to_class_def item_def class_tables)

lemma registered_lookup:
  "(T, d) \<in> set name_to_class \<Longrightarrow> map_of (classes (helixir_env c sh)) T = Some d"
  by (simp add: sample_env_fields registered_distinct)

lemma entry_scalar_payload:
  assumes "map_of scalar_name_to_class T = None" and "\<not> contains ''Dict['' T"
    and "map_of (classes \<Gamma>) T = Some d"
  shows "unmarshal_json \<Gamma> T (JInt n) = Inr (Obj (class_name d) [])"
    and "unmarshal_json \<Gamma> T (JFloat m e) = Inr (Obj (class_name d) [])"
  using assms
  by (simp_all add: unmarshal_json.simps definition_unmarshal_json.simps getitem_def)

lemma method_scalar_payload:
  "definition_unmarshal_json \<Gamma> d (JInt n) = Inr (Raw (JInt n))"
  "definition_unmarshal_json \<Gamma> d (JFloat m e) = Inr (Raw (JFloat m e))"
  by (simp_all add: definition_unmarshal_json.simps)

lemma registered_TokenPriceResponse:
  "map_of scalar_name_to_class ''TokenPriceResponse'' = None"
  "\<not> contains ''Dict['' ''TokenPriceResponse''"
  "map_of (classes (helixir_env c sh)) ''TokenPriceResponse'' = Some TokenPriceResponse"
  by (simp_all add: scalar_name_to_class_def sample_env_fields name_to_class_def)

lemma class_name_TokenPriceResponse: "class_name TokenPriceResponse = ''TokenPriceResponse''"
  by (simp add: TokenPriceResponse_def)

lemma registered_scalar_payload:
  assumes "(T, d) \<in> set name_to_class"
  shows "unmarshal_json (helixir_env c sh) T (JInt n) = Inr (Obj T [])"
    and "unmarshal_json (helixir_env c sh) T (JFloat m e) = Inr (Obj T [])"
proof -
  from registered_names registered_class_names assms have
    T: "map_of scalar_name_to_class T = None" "\<not> contains ''Dict['' T" "class_name d = T"
    by (auto simp: list_all_iff)
  from entry_scalar_payload [OF T(1,2) registered_lookup [OF assms]] T(3)
  show "unmarshal_json (helixir_env c sh) T (JInt n) = Inr (Obj T [])"
    and "unmarshal_json (helixir_env c sh) T (JFloat m e) = Inr (Obj T [])"
    by simp_all
qed

text \<open>
  C4. The entry point called with the entity type \<open>TokenPriceResponse\<close> and the
  number 5, or 2.5, returns a \<open>TokenPriceResponse\<close> instance with no attribute set,
  not the number: the method \<^verbatim>\<open>Definition.unmarshal_json\<close> returns the number, and
  the entry point drops what the method returns and returns the instance. So it is for
  every registered class and every number.
\<close>

theorem entry_point_drops_scalar_payload:
  "unmarshal_json (helixir_env c sh) ''TokenPriceResponse'' (JInt 5)
     = Inr (Obj ''TokenPriceResponse'' [])
   \<and> unmarshal_json (helixir_env c sh) ''TokenPriceResponse'' (JFloat 5 (- 1))
     = Inr (Obj ''TokenPriceResponse'' [])
   \<and> definition_unmarshal_json (helixir_env c sh) TokenPriceResponse (JInt 5)
     = Inr (Raw (JInt 5))
   \<and> definition_unmarshal_json (helixir_env c sh) TokenPriceResponse (JFloat 5 (- 1))
     = Inr (Raw (JFloat 5 (- 1)))
   \<and> list_all (\<lambda>(T, d). unmarshal_json (helixir_env c sh) T (JInt n) = Inr (Obj T [])
                  \<and> unmarshal_json (helixir_env c sh) T (JFloat m e) = Inr (Obj T [])
                  \<and> definition_unmarshal_json (helixir_env c sh) d (JInt n) = Inr (Raw (JInt n))
                  \<and> definition_unmarshal_json (helixir_env c sh) d (JFloat m e)
                      = Inr (Raw (JFloat m e)))
        name_to_class"
proof -
  have "list_all (\<lambda>(T, d). unmarshal_json (helixir_env c sh) T (JInt n) = Inr (Obj T [])
                  \<and> unmarshal_json (helixir_env c sh) T (JFloat m e) = Inr (Obj T [])
                  \<and> definition_unmarshal_json (helixir_env c sh) d (JInt n) = Inr (Raw (JInt n))
                  \<and> definition_unmarshal_json (helixir_env c sh) d (JFloat m e)
                      = Inr (Raw (JFloat m e)))
        name_to_class"
    unfolding list_all_iff
    by (auto simp: registered_scalar_payload method_scalar_payload)
  with entry_scalar_payload [OF registered_TokenPriceResponse, of c sh]
  show ?thesis
    by (simp add: method_scalar_payload class_name_TokenPriceResponse)
qed

lemma method_array_payload_raises:
  assumes "item (map snd (api_name_to_python d)) 0 = Inr a"
    and "map_of (attributes_to_types d) a = Some ty"
  shows "definition_unmarshal_json \<Gamma> d (JList xs)
         = Inl (if ty = PyStr then IndexError else AttributeError)"
  using assms
  by (cases ty) (simp_all add: definition_unmarshal_json.simps list_type_inner_def)

lemma entry_array_payload:
  assumes "map_of scalar_name_to_class T = None" and "\<not> contains ''List['' T"
  shows "unmarshal_json \<Gamma> T (JList xs)
         = (case unmarshal_json_list \<Gamma> xs T of
              Inl e \<Rightarrow> Inl e | Inr items \<Rightarrow> Inr (VList items))"
  using assms by (simp add: unmarshal_json.simps)

lemma registered_array_payload:
  assumes "(T, d) \<in> set name_to_class"
  shows "\<exists>e. definition_unmarshal_json \<Gamma> d (JList xs) = Inl e"
    and "unmarshal_json \<Gamma> T (JList xs)
         = (case unmarshal_json_list \<Gamma> xs T of
              Inl e \<Rightarrow> Inl e | Inr items \<Rightarrow> Inr (VList items))"
proof -
  from registered_first_fields assms obtain a ty where
    "item (map snd (api_name_to_python d)) 0 = Inr a"
    "map_of (attributes_to_types d) a = Some ty"
    by (auto simp: list_all_iff)
  from method_array_payload_raises [OF this]
  show "\<exists>e. definition_unmarshal_json \<Gamma> d (JList xs) = Inl e" by simp
  from registered_names assms have
    "map_of scalar_name_to_class T = None" "\<not> contains ''List['' T"
    by (auto simp: list_all_iff)
  then show "unmarshal_json \<Gamma> T (JList xs)
         = (case unmarshal_json_list \<Gamma> xs T of
              Inl e \<Rightarrow> Inl e | Inr items \<Rightarrow> Inr (VList items))"
    by (rule entry_array_payload)
qed

lemma registered_FarmsPortfolioResponse:
  "map_of scalar_name_to_class ''FarmsPortfolioResponse'' = None"
  "\<not> contains ''List['' ''FarmsPortfolioResponse''"
  "map_of (classes (helixir_env c sh)) ''FarmsPortfolioResponse'' = Some FarmsPortfolioResponse"
  by (simp_all add: scalar_name_to_class_def sample_env_fields name_to_class_def)

lemma first_field_FarmsPortfolioResponse:
  "item (map snd (api_name_to_python FarmsPortfolioResponse)) 0 = Inr ''lp_pools''"
  "map_of (attributes_to_types FarmsPortfolioResponse) ''lp_pools''
     = Some (ListOf ''FarmPortfolio'')"
  by (simp_all add: FarmsPortfolioResponse_def item_def)

lemma FarmsPortfolioResponse_unknown_key:
  "item_step (helixir_env c sh) FarmsPortfolioResponse [] ''farm_name'' v
     = Inr (''farm_name'', Raw v)"
  "class_name FarmsPortfolioResponse = ''FarmsPortfolioResponse''"
  by (simp_all add: item_step.simps keyword_safe_def FarmsPortfolioResponse_def
      sample_env_fields py_iskeyword_def kwlist_def)

lemma registered_PublicReadable:
  "map_of scalar_name_to_class ''PublicReadable'' = None"
  "\<not> contains ''Dict['' ''PublicReadable''"
  "map_of (classes (helixir_env c sh)) ''PublicReadable'' = Some PublicReadable"
  "map_of (classes (helixir_env c sh)) ''Domain'' = Some DomainDef"
  by (simp_all add: scalar_name_to_class_def sample_env_fields name_to_class_def)

lemma first_field_Domain:
  "item (map snd (api_name_to_python DomainDef)) 0 = Inr ''authority''"
  "map_of (attributes_to_types DomainDef) ''authority'' = Some PyInt"
  by (simp_all add: DomainDef_def item_def)

lemma PublicReadable_domain_field:
  "map_of (api_name_to_python PublicReadable) ''domain'' = Some ''domain''"
  "map_of (attribute_is_primitive PublicReadable) ''domain'' = Some False"
  "map_of (attributes_to_types PublicReadable) ''domain'' = Some (ClassRef ''Domain'')"
  by (simp_all add: PublicReadable_def)

text \<open>
  C5. \<open>FarmsPortfolioResponse\<close> declares \<open>lp_pools\<close> first, with the type
  \<^verbatim>\<open>List[FarmPortfolio]\<close>. The entry point called with this type and an array
  returns a list of \<open>FarmsPortfolioResponse\<close> instances, one hydrated from each
  element, and no instance with \<open>lp_pools\<close> assigned; the method
  \<^verbatim>\<open>Definition.unmarshal_json\<close> called with the array raises AttributeError, and so
  does the entry point when an array arrives for the nested entity \<open>domain\<close> of a
  \<open>PublicReadable\<close>. For every registered class and every array the method raises
  and the entry point returns what the list hydration of the elements as that class gives.
\<close>

theorem array_payload_never_fills_first_field:
  "unmarshal_json (helixir_env c sh) ''FarmsPortfolioResponse''
       (JList [JDict [(''farm_name'', JStr ''Pancake'')]])
     = Inr (VList [Obj ''FarmsPortfolioResponse'' [(''farm_name'', Raw (JStr ''Pancake''))]])
   \<and> definition_unmarshal_json (helixir_env c sh) FarmsPortfolioResponse
       (JList [JDict [(''farm_name'', JStr ''Pancake'')]])
     = Inl AttributeError
   \<and> unmarshal_json (helixir_env c sh) ''PublicReadable'' (JDict [(''domain'', JList [])])
     = Inl AttributeError
   \<and> list_all (\<lambda>(T, d).
          (\<exists>e. definition_unmarshal_json (helixir_env c sh) d (JList xs) = Inl e)
          \<and> unmarshal_json (helixir_env c sh) T (JList xs)
              = (case unmarshal_json_list (helixir_env c sh) xs T of
                   Inl e \<Rightarrow> Inl e | Inr items \<Rightarrow> Inr (VList items)))
        name_to_class"
proof -
  have every:
    "list_all (\<lambda>(T, d).
          (\<exists>e. definition_unmarshal_json (helixir_env c sh) d (JList xs) = Inl e)
          \<and> unmarshal_json (helixir_env c sh) T (JList xs)
              = (case unmarshal_json_list (helixir_env c sh) xs T of
                   Inl e \<Rightarrow> Inl e | Inr items \<Rightarrow> Inr (VList items)))
        name_to_class"
    unfolding list_all_iff
    using registered_array_payload by blast
  have entry:
    "unmarshal_json (helixir_env c sh) ''FarmsPortfolioResponse''
       (JList [JDict [(''farm_name'', JStr ''Pancake'')]])
     = Inr (VList [Obj ''FarmsPortfolioResponse'' [(''farm_name'', Raw (JStr ''Pancake''))]])"
    by (simp add: entry_array_payload registered_FarmsPortfolioResponse getitem_def
        FarmsPortfolioResponse_unknown_key py_setattr_def)
  have method_call:
    "definition_unmarshal_json (helixir_env c sh) FarmsPortfolioResponse
       (JList [JDict [(''farm_name'', JStr ''Pancake'')]])
     = Inl AttributeError"
    using method_array_payload_raises [OF first_field_FarmsPortfolioResponse] by simp
  have inner:
    "definition_unmarshal_json (helixir_env c sh) DomainDef (JList []) = Inl AttributeError"
    using method_array_payload_raises [OF first_field_Domain] by simp
  have field_value:
    "item_value (helixir_env c sh) PublicReadable ''domain'' (JList []) = Inl AttributeError"
    by (simp add: item_value.simps PublicReadable_domain_field registered_PublicReadable
        inner getitem_def)
  have field:
    "item_step (helixir_env c sh) PublicReadable [] ''domain'' (JList []) = Inl AttributeError"
    by (simp add: item_step.simps PublicReadable_domain_field field_value)
  have "definition_unmarshal_json (helixir_env c sh) PublicReadable
          (JDict [(''domain'', JList [])]) = Inl AttributeError"
    by (simp add: definition_unmarshal_json.simps field)
  then have nested:
    "unmarshal_json (helixir_env c sh) ''PublicReadable'' (JDict [(''domain'', JList [])])
     = Inl AttributeError"
    by (simp add: unmarshal_json.simps registered_PublicReadable getitem_def)
  from entry method_call nested every show ?thesis by (intro conjI)
qed

end
